theory Spec2Isabelle
  imports Complex_Main "HOL-Library.Log_Nat"
begin

section \<open>JavaScript values used by the components\<close>

text \<open>
  JavaScript strings are modelled as \<^typ>\<open>string\<close>; one list element stands for one
  UTF-16 code unit, so \<^term>\<open>length\<close> is the \<^verbatim>\<open>.length\<close> property.
  Numbers that the components use as counts and indices are modelled as \<^typ>\<open>int\<close>.
  The zoom scale is a \<^typ>\<open>rat\<close>; where the code computes with it, the arithmetic is
  that of IEEE 754 doubles, defined below.
\<close>

definition startsWith :: "string \<Rightarrow> string \<Rightarrow> bool" where
  "startsWith s p = (take (length p) s = p)"

definition endsWith :: "string \<Rightarrow> string \<Rightarrow> bool" where
  "endsWith s p = (length p \<le> length s \<and> drop (length s - length p) s = p)"

text \<open>
  \<^verbatim>\<open>String.prototype.substring(start, end)\<close> for integer arguments: both indices are
  clamped to the range from 0 to the length and swapped when start exceeds end.
\<close>

definition substring :: "string \<Rightarrow> int \<Rightarrow> int \<Rightarrow> string" where
  "substring s start end' =
     (let len = int (length s);
          a = max 0 (min start len);
          b = max 0 (min end' len);
          from = min a b;
          to = max a b
      in take (nat (to - from)) (drop (nat from) s))"

section \<open>JavaScript numbers\<close>

text \<open>
  A finite double is written as the rational it stands for. \<open>toDouble x\<close> is the double
  nearest to \<open>x\<close>, ties going to the even significand: \<open>ilog2 x\<close> is the binary
  exponent of \<open>x\<close>, the doubles around \<open>x\<close> are the multiples of two to the power
  \<open>ilog2 x - 52\<close> (of \<open>- 1074\<close> among the subnormals), and \<open>x\<close> is rounded to one of
  them. It is the value of a decimal literal (\<^verbatim>\<open>0.1\<close> is \<open>toDouble (1 / 10)\<close>) and the
  rounding step of \<^verbatim>\<open>+\<close> and \<^verbatim>\<open>-\<close>. NaN and the infinities are left out: a result
  beyond the largest double has no counterpart here, and the sums and differences of
  the zoom handlers stay far below it.
\<close>

definition ilog2 :: "rat \<Rightarrow> int" where
  "ilog2 x =
     (let b = bitlen (fst (quotient_of \<bar>x\<bar>)) - bitlen (snd (quotient_of \<bar>x\<bar>))
      in if 2 powi b \<le> \<bar>x\<bar> then b else b - 1)"

definition roundHalfEven :: "rat \<Rightarrow> int" where
  "roundHalfEven y =
     (let n = \<lfloor>y\<rfloor>; r = y - of_int n
      in if r < 1 / 2 then n else if 1 / 2 < r then n + 1 else if even n then n else n + 1)"

definition toDouble :: "rat \<Rightarrow> rat" where
  "toDouble x =
     (if x = 0 then 0
      else let q = max (ilog2 x - 52) (- 1074)
           in of_int (roundHalfEven (x / 2 powi q)) * 2 powi q)"

definition jsAdd :: "rat \<Rightarrow> rat \<Rightarrow> rat" where
  "jsAdd x y = toDouble (x + y)"

definition jsSub :: "rat \<Rightarrow> rat \<Rightarrow> rat" where
  "jsSub x y = toDouble (x - y)"

section \<open>RevisionPanel (src/components/RevisionPanel.tsx)\<close>

record FormatChange =
  oldProperties :: "(string \<times> string) list option"
  newProperties :: "(string \<times> string) list option"

record Revision =
  author :: string
  date :: string
  revisionType :: string
  revText :: string
  isMoveSource :: "bool option"
  formatChange :: "FormatChange option"

text \<open>
  The four type guards are imported from the external engine package; the panel only
  calls them, so they are parameters of the model.
\<close>

record RevisionGuards =
  isInsertion :: "Revision \<Rightarrow> bool"
  isDeletion :: "Revision \<Rightarrow> bool"
  isMove :: "Revision \<Rightarrow> bool"
  isFormatChange :: "Revision \<Rightarrow> bool"

definition getRevisionTypeLabel :: "RevisionGuards \<Rightarrow> Revision \<Rightarrow> string" where
  "getRevisionTypeLabel g revision =
     (if isInsertion g revision then ''Inserted''
      else if isDeletion g revision then ''Deleted''
      else if isMove g revision then
        (if isMoveSource revision = Some True then ''Moved from'' else ''Moved to'')
      else if isFormatChange g revision then ''Formatted''
      else revisionType revision)"

definition getRevisionTypeClass :: "RevisionGuards \<Rightarrow> Revision \<Rightarrow> string" where
  "getRevisionTypeClass g revision =
     (if isInsertion g revision then ''rdv-revision--insertion''
      else if isDeletion g revision then ''rdv-revision--deletion''
      else if isMove g revision then ''rdv-revision--move''
      else if isFormatChange g revision then ''rdv-revision--format''
      else '''')"

definition truncateText :: "string \<Rightarrow> int \<Rightarrow> string" where
  "truncateText txt maxLength =
     (if int (length txt) \<le> maxLength then txt
      else substring txt 0 maxLength @ ''...'')"

definition truncateText_default :: "string \<Rightarrow> string" where
  "truncateText_default txt = truncateText txt 100"

text \<open>
  The filter state holds the value of the selected \<^verbatim>\<open><option>\<close>; the switch keeps its
  default branch.
\<close>

definition filterCallback :: "RevisionGuards \<Rightarrow> string \<Rightarrow> Revision \<Rightarrow> bool" where
  "filterCallback g flt r =
     (if flt = ''insertions'' then isInsertion g r
      else if flt = ''deletions'' then isDeletion g r
      else if flt = ''moves'' then isMove g r
      else if flt = ''formatting'' then isFormatChange g r
      else True)"

definition filteredRevisions :: "RevisionGuards \<Rightarrow> string \<Rightarrow> Revision list \<Rightarrow> Revision list" where
  "filteredRevisions g flt revisions =
     (if flt = ''all'' then revisions
      else filter (filterCallback g flt) revisions)"

record Stats =
  total :: nat
  insertions :: nat
  deletions :: nat
  moves :: nat
  formatting :: nat

definition stats :: "RevisionGuards \<Rightarrow> Revision list \<Rightarrow> Stats" where
  "stats g revisions =
     \<lparr> total = length revisions,
       insertions = length (filter (isInsertion g) revisions),
       deletions = length (filter (isDeletion g) revisions),
       moves = length (filter (isMove g) revisions),
       formatting = length (filter (isFormatChange g) revisions) \<rparr>"

definition toggleExpanded :: "nat \<Rightarrow> nat set \<Rightarrow> nat set" where
  "toggleExpanded index prev = (if index \<in> prev then prev - {index} else insert index prev)"

text \<open>What one entry of the list shows; \<open>expandButton\<close> is the button's label when present.\<close>

record RevisionItem =
  revision :: Revision
  itemClass :: string
  typeLabel :: string
  shownText :: string
  expandButton :: "string option"
  formatDetails :: "((string \<times> string) list \<times> (string \<times> string) list) option"

definition renderItem :: "RevisionGuards \<Rightarrow> nat set \<Rightarrow> nat \<Rightarrow> Revision \<Rightarrow> RevisionItem" where
  "renderItem g expandedIds index r =
     (let isExpanded = (index \<in> expandedIds);
          needsTruncation = (length (revText r) > 100)
      in \<lparr> revision = r,
           itemClass = ''rdv-revision-item '' @ getRevisionTypeClass g r,
           typeLabel = getRevisionTypeLabel g r,
           shownText = (if isExpanded then revText r else truncateText_default (revText r)),
           expandButton =
             (if needsTruncation then Some (if isExpanded then ''Show less'' else ''Show more'')
              else None),
           formatDetails =
             (if isFormatChange g r then
                (case formatChange r of
                   None \<Rightarrow> None
                 | Some fc \<Rightarrow>
                     Some (case oldProperties fc of None \<Rightarrow> [] | Some ps \<Rightarrow> ps,
                           case newProperties fc of None \<Rightarrow> [] | Some ps \<Rightarrow> ps))
              else None) \<rparr>)"

datatype PanelView =
  EmptyPanel
  | Panel Stats string "RevisionItem list"

definition RevisionPanel :: "RevisionGuards \<Rightarrow> string \<Rightarrow> nat set \<Rightarrow> Revision list \<Rightarrow> PanelView" where
  "RevisionPanel g flt expandedIds revisions =
     (if length revisions = 0 then EmptyPanel
      else Panel (stats g revisions) flt
             (map (\<lambda>(index, r). renderItem g expandedIds index r)
                  (enumerate 0 (filteredRevisions g flt revisions))))"

text \<open>The revisions shown by a rendered panel, in display order.\<close>

fun displayed :: "PanelView \<Rightarrow> Revision list" where
  "displayed EmptyPanel = []"
| "displayed (Panel st flt items) = map revision items"

fun displayedItems :: "PanelView \<Rightarrow> RevisionItem list" where
  "displayedItems EmptyPanel = []"
| "displayedItems (Panel st flt items) = items"

section \<open>Values shared by the viewers\<close>

text \<open>
  An \<^verbatim>\<open>Error\<close> object is known to the components by its \<^verbatim>\<open>message\<close> only. A thrown
  or rejected value is an \<^verbatim>\<open>Error\<close> or any other value, the latter known by its
  \<^verbatim>\<open>String(err)\<close> conversion. An engine call returns \<open>Inl\<close> of what it threw or
  rejected with, or \<open>Inr\<close> of its result.
\<close>

datatype JsError = NewError (message: string)

datatype Thrown = ThrownError JsError | ThrownOther string

text \<open>\<^verbatim>\<open>err instanceof Error ? err : new Error(String(err))\<close>\<close>

fun toError :: "Thrown \<Rightarrow> JsError" where
  "toError (ThrownError e) = e"
| "toError (ThrownOther s) = NewError s"

record File =
  fname :: string
  fbytes :: "nat list"

text \<open>Truthiness of a \<^verbatim>\<open>string | null\<close>: neither null nor the empty string.\<close>

definition truthy :: "string option \<Rightarrow> bool" where
  "truthy v = (case v of None \<Rightarrow> False | Some s \<Rightarrow> s \<noteq> [])"

datatype CommentRenderMode =
  CommentRenderMode_Disabled
  | CommentRenderMode_EndnoteStyle
  | CommentRenderMode_Inline
  | CommentRenderMode_Margin

datatype PaginationMode = PaginationMode_None | PaginationMode_Paginated

datatype AnnotationLabelMode =
  AnnotationLabelMode_Above
  | AnnotationLabelMode_Inline
  | AnnotationLabelMode_Tooltip
  | AnnotationLabelMode_None

text \<open>
  The options object handed to the engine. A key that the object lacks, or holds
  \<^verbatim>\<open>undefined\<close> for, is \<open>None\<close>.
\<close>

record ConversionOptions =
  co_commentRenderMode :: "CommentRenderMode option"
  co_pageTitle :: "string option"
  co_cssPrefix :: "string option"
  co_fabricateClasses :: "bool option"
  co_additionalCss :: "string option"
  co_commentCssClassPrefix :: "string option"
  co_paginationMode :: "PaginationMode option"
  co_paginationScale :: "rat option"
  co_renderAnnotations :: "bool option"
  co_annotationLabelMode :: "AnnotationLabelMode option"
  co_annotationCssClassPrefix :: "string option"
  co_renderFootnotesAndEndnotes :: "bool option"
  co_renderHeadersAndFooters :: "bool option"
  co_renderTrackedChanges :: "bool option"
  co_showDeletedContent :: "bool option"
  co_renderMoveOperations :: "bool option"

definition noOptions :: ConversionOptions where
  "noOptions =
     \<lparr> co_commentRenderMode = None, co_pageTitle = None, co_cssPrefix = None,
       co_fabricateClasses = None, co_additionalCss = None, co_commentCssClassPrefix = None,
       co_paginationMode = None, co_paginationScale = None, co_renderAnnotations = None,
       co_annotationLabelMode = None, co_annotationCssClassPrefix = None,
       co_renderFootnotesAndEndnotes = None, co_renderHeadersAndFooters = None,
       co_renderTrackedChanges = None, co_showDeletedContent = None,
       co_renderMoveOperations = None \<rparr>"

text \<open>The mode is the string held in the settings; the switch keeps its default branch.\<close>

definition getCommentRenderMode :: "string \<Rightarrow> CommentRenderMode" where
  "getCommentRenderMode mode =
     (if mode = ''endnote'' then CommentRenderMode_EndnoteStyle
      else if mode = ''inline'' then CommentRenderMode_Inline
      else if mode = ''margin'' then CommentRenderMode_Margin
      else CommentRenderMode_Disabled)"

definition getAnnotationLabelMode :: "string \<Rightarrow> AnnotationLabelMode option" where
  "getAnnotationLabelMode mode =
     (if mode = ''above'' then Some AnnotationLabelMode_Above
      else if mode = ''inline'' then Some AnnotationLabelMode_Inline
      else if mode = ''tooltip'' then Some AnnotationLabelMode_Tooltip
      else if mode = ''none'' then Some AnnotationLabelMode_None
      else None)"

text \<open>\<^verbatim>\<open>additionalCss || undefined\<close>\<close>

definition orUndefined :: "string \<Rightarrow> string option" where
  "orUndefined s = (if s = [] then None else Some s)"

text \<open>\<^verbatim>\<open>a ?? b\<close>, where \<open>a\<close> may be undefined.\<close>

definition nullish :: "'a option \<Rightarrow> 'a \<Rightarrow> 'a" where
  "nullish a b = (case a of None \<Rightarrow> b | Some v \<Rightarrow> v)"

definition nullishU :: "'a option \<Rightarrow> 'a option \<Rightarrow> 'a option" where
  "nullishU a b = (case a of None \<Rightarrow> b | Some v \<Rightarrow> Some v)"

section \<open>The DocumentViewer with its own option toggles (src/components/DocumentViewer.tsx)\<close>

text \<open>
  This component, the demo viewer below, keeps every option in a state cell of its own.
  It stores its scale and hands it on without computing with it; the literal
  \<^verbatim>\<open>0.8\<close> is written as the fraction.
  Fields of the component's state are prefixed \<open>dv_\<close>, those of the value the
  \<^verbatim>\<open>useDocxodus\<close> hook returned \<open>dh_\<close>, those of the overrides argument \<open>ov_\<close>.
  A handler is a function of the state its closure was created in; it returns the state
  after every update it queued, the awaited engine call included.
\<close>

record DemoHook =
  dh_isReady :: bool
  dh_isLoading :: bool
  dh_initError :: "JsError option"
  dh_convertToHtml :: "File \<Rightarrow> ConversionOptions \<Rightarrow> Thrown + string"

record DemoState =
  dv_html :: "string option"
  dv_isConverting :: bool
  dv_error :: "JsError option"
  dv_fileName :: string
  dv_commentMode :: string
  dv_pendingFile :: "File option"
  dv_currentPage :: int
  dv_totalPages :: int
  dv_enablePagination :: bool
  dv_paginationScale :: rat
  dv_showPageNumbers :: bool
  dv_pageTitle :: string
  dv_cssPrefix :: string
  dv_fabricateClasses :: bool
  dv_additionalCss :: string
  dv_commentCssClassPrefix :: string
  dv_showAdvanced :: bool

definition dv_initial :: DemoState where
  "dv_initial =
     \<lparr> dv_html = None, dv_isConverting = False, dv_error = None, dv_fileName = '''',
       dv_commentMode = ''disabled'', dv_pendingFile = None, dv_currentPage = 1,
       dv_totalPages = 0, dv_enablePagination = False, dv_paginationScale = 8 / 10,
       dv_showPageNumbers = True, dv_pageTitle = ''Document'', dv_cssPrefix = ''docx-'',
       dv_fabricateClasses = True, dv_additionalCss = '''',
       dv_commentCssClassPrefix = ''comment-'', dv_showAdvanced = False \<rparr>"

record Overrides =
  ov_commentRenderMode :: "CommentRenderMode option"
  ov_paginationMode :: "PaginationMode option"
  ov_paginationScale :: "rat option"
  ov_fabricateClasses :: "bool option"

definition noOverrides :: Overrides where
  "noOverrides =
     \<lparr> ov_commentRenderMode = None, ov_paginationMode = None, ov_paginationScale = None,
       ov_fabricateClasses = None \<rparr>"

definition dv_getConvertOptions :: "DemoState \<Rightarrow> Overrides option \<Rightarrow> ConversionOptions" where
  "dv_getConvertOptions s overrides =
     noOptions
     \<lparr> co_commentRenderMode :=
         Some (nullish (Option.bind overrides ov_commentRenderMode)
                 (getCommentRenderMode (dv_commentMode s))),
       co_pageTitle := Some (dv_pageTitle s),
       co_cssPrefix := Some (dv_cssPrefix s),
       co_fabricateClasses :=
         Some (nullish (Option.bind overrides ov_fabricateClasses) (dv_fabricateClasses s)),
       co_additionalCss := orUndefined (dv_additionalCss s),
       co_commentCssClassPrefix := Some (dv_commentCssClassPrefix s),
       co_paginationMode :=
         Some (nullish (Option.bind overrides ov_paginationMode)
                 (if dv_enablePagination s then PaginationMode_Paginated
                  else PaginationMode_None)),
       co_paginationScale :=
         nullishU (Option.bind overrides ov_paginationScale)
           (if dv_enablePagination s then Some (dv_paginationScale s) else None) \<rparr>"

definition dv_convert :: "DemoHook \<Rightarrow> File \<Rightarrow> ConversionOptions \<Rightarrow> DemoState \<Rightarrow> DemoState" where
  "dv_convert h f options s =
     (if \<not> dh_isReady h then s
      else
        let s1 = s\<lparr>dv_isConverting := True, dv_error := None, dv_html := None\<rparr>;
            s2 = (case dh_convertToHtml h f options of
                    Inr result \<Rightarrow> s1\<lparr>dv_html := Some result\<rparr>
                  | Inl err \<Rightarrow> s1\<lparr>dv_error := Some (toError err)\<rparr>)
        in s2\<lparr>dv_isConverting := False\<rparr>)"

definition dv_handleFileChange :: "DemoHook \<Rightarrow> File option \<Rightarrow> DemoState \<Rightarrow> DemoState" where
  "dv_handleFileChange h selected s =
     (case selected of
        None \<Rightarrow> s
      | Some f \<Rightarrow>
          dv_convert h f (dv_getConvertOptions s None)
            (s\<lparr>dv_fileName := fname f, dv_pendingFile := Some f\<rparr>))"

definition dv_reconvert :: "DemoHook \<Rightarrow> DemoState \<Rightarrow> DemoState" where
  "dv_reconvert h s =
     (case dv_pendingFile s of
        None \<Rightarrow> s
      | Some f \<Rightarrow> dv_convert h f (dv_getConvertOptions s None) s)"

definition dv_commentModeOptions :: "DemoState \<Rightarrow> string \<Rightarrow> ConversionOptions" where
  "dv_commentModeOptions s mode =
     dv_getConvertOptions s
       (Some (noOverrides\<lparr>ov_commentRenderMode := Some (getCommentRenderMode mode)\<rparr>))"

definition dv_handleCommentModeChange :: "DemoHook \<Rightarrow> string \<Rightarrow> DemoState \<Rightarrow> DemoState" where
  "dv_handleCommentModeChange h mode s =
     (let s' = s\<lparr>dv_commentMode := mode\<rparr>
      in case dv_pendingFile s of
           None \<Rightarrow> s'
         | Some f \<Rightarrow> dv_convert h f (dv_commentModeOptions s mode) s')"

text \<open>
  The options built by \<^verbatim>\<open>handlePaginationToggle(enabled)\<close>: \<^verbatim>\<open>getConvertOptions\<close> and
  \<^verbatim>\<open>paginationScale\<close> are those of the closure, so they read the state from before
  \<^verbatim>\<open>setEnablePagination(enabled)\<close>.
\<close>

definition dv_paginationToggleOptions :: "DemoState \<Rightarrow> bool \<Rightarrow> ConversionOptions" where
  "dv_paginationToggleOptions s enabled =
     dv_getConvertOptions s
       (Some (noOverrides
          \<lparr> ov_paginationMode :=
              Some (if enabled then PaginationMode_Paginated else PaginationMode_None),
            ov_paginationScale := (if enabled then Some (dv_paginationScale s) else None) \<rparr>))"

definition dv_handlePaginationToggle :: "DemoHook \<Rightarrow> bool \<Rightarrow> DemoState \<Rightarrow> DemoState" where
  "dv_handlePaginationToggle h enabled s =
     (let s' = s\<lparr>dv_enablePagination := enabled\<rparr>
      in case dv_pendingFile s of
           None \<Rightarrow> s'
         | Some f \<Rightarrow> dv_convert h f (dv_paginationToggleOptions s enabled) s')"

definition dv_handleFabricateClassesChange :: "DemoHook \<Rightarrow> bool \<Rightarrow> DemoState \<Rightarrow> DemoState" where
  "dv_handleFabricateClassesChange h checked s =
     (let s' = s\<lparr>dv_fabricateClasses := checked\<rparr>
      in case dv_pendingFile s of
           None \<Rightarrow> s'
         | Some f \<Rightarrow>
             dv_convert h f
               (dv_getConvertOptions s (Some (noOverrides\<lparr>ov_fabricateClasses := Some checked\<rparr>)))
               s')"

definition dv_handleClear :: "DemoState \<Rightarrow> DemoState" where
  "dv_handleClear s =
     s\<lparr>dv_html := None, dv_error := None, dv_fileName := '''', dv_pendingFile := None\<rparr>"

text \<open>
  The events of the demo viewer's controls. \<open>Reconvert\<close> stands for the mouse-up,
  touch-end and blur handlers, all of which call \<^verbatim>\<open>reconvert\<close>.
\<close>

datatype DemoEvent =
  FileChange "File option"
  | Reconvert
  | CommentModeChange string
  | PaginationToggle bool
  | FabricateClassesChange bool
  | Clear
  | SetPaginationScale rat
  | SetShowPageNumbers bool
  | SetPageTitle string
  | SetCssPrefix string
  | SetCommentCssClassPrefix string
  | SetAdditionalCss string
  | ToggleAdvanced
  | PaginationComplete int
  | PageVisible int

fun dv_step :: "DemoHook \<Rightarrow> DemoEvent \<Rightarrow> DemoState \<Rightarrow> DemoState" where
  "dv_step h (FileChange selected) s = dv_handleFileChange h selected s"
| "dv_step h Reconvert s = dv_reconvert h s"
| "dv_step h (CommentModeChange mode) s = dv_handleCommentModeChange h mode s"
| "dv_step h (PaginationToggle enabled) s = dv_handlePaginationToggle h enabled s"
| "dv_step h (FabricateClassesChange checked) s = dv_handleFabricateClassesChange h checked s"
| "dv_step h Clear s = dv_handleClear s"
| "dv_step h (SetPaginationScale v) s = s\<lparr>dv_paginationScale := v\<rparr>"
| "dv_step h (SetShowPageNumbers b) s = s\<lparr>dv_showPageNumbers := b\<rparr>"
| "dv_step h (SetPageTitle v) s = s\<lparr>dv_pageTitle := v\<rparr>"
| "dv_step h (SetCssPrefix v) s = s\<lparr>dv_cssPrefix := v\<rparr>"
| "dv_step h (SetCommentCssClassPrefix v) s = s\<lparr>dv_commentCssClassPrefix := v\<rparr>"
| "dv_step h (SetAdditionalCss v) s = s\<lparr>dv_additionalCss := v\<rparr>"
| "dv_step h ToggleAdvanced s = s\<lparr>dv_showAdvanced := (\<not> dv_showAdvanced s)\<rparr>"
| "dv_step h (PaginationComplete n) s = s\<lparr>dv_totalPages := n\<rparr>"
| "dv_step h (PageVisible n) s = s\<lparr>dv_currentPage := n\<rparr>"

text \<open>A run: each event comes with what the hook returned when it was handled.\<close>

fun dv_run :: "(DemoHook \<times> DemoEvent) list \<Rightarrow> DemoState \<Rightarrow> DemoState" where
  "dv_run [] s = s"
| "dv_run ((h, ev) # evs) s = dv_run evs (dv_step h ev s)"

text \<open>
  What the component renders: the two early returns, then the main view with the Clear
  button, the processing indicator, the error pane and the document (paginated or not).
\<close>

record DemoMainView =
  mv_fileLabel :: string
  mv_clearButton :: bool
  mv_inputsDisabled :: bool
  mv_processing :: bool
  mv_errorPane :: "string option"
  mv_document :: "(bool \<times> string) option"

datatype DemoView =
  DemoLoading
  | DemoInitFailed string
  | DemoMain DemoMainView

definition dv_render :: "DemoHook \<Rightarrow> DemoState \<Rightarrow> DemoView" where
  "dv_render h s =
     (let isProcessing = (dv_isConverting s \<or> dh_isLoading h)
      in if dh_isLoading h then DemoLoading
         else case dh_initError h of
           Some initError \<Rightarrow> DemoInitFailed (message initError)
         | None \<Rightarrow>
             DemoMain
               \<lparr> mv_fileLabel =
                   (if dv_fileName s \<noteq> [] then dv_fileName s else ''Choose a DOCX file''),
                 mv_clearButton = truthy (dv_html s),
                 mv_inputsDisabled = isProcessing,
                 mv_processing = dv_isConverting s,
                 mv_errorPane =
                   (case dv_error s of
                      Some e \<Rightarrow> if \<not> dv_isConverting s then Some (message e) else None
                    | None \<Rightarrow> None),
                 mv_document =
                   (case dv_html s of
                      Some html \<Rightarrow>
                        if html \<noteq> [] \<and> \<not> dv_isConverting s
                        then Some (dv_enablePagination s, html) else None
                    | None \<Rightarrow> None) \<rparr>)"

fun shownError :: "DemoView \<Rightarrow> string option" where
  "shownError (DemoMain v) = mv_errorPane v"
| "shownError _ = None"

fun shownDocument :: "DemoView \<Rightarrow> string option" where
  "shownDocument (DemoMain v) = map_option snd (mv_document v)"
| "shownDocument _ = None"

section \<open>The library DocumentViewer (unnamed/part_008, src/types/index.ts)\<close>

text \<open>
  Fields of \<^verbatim>\<open>ViewerSettings\<close> are prefixed \<open>vs_\<close>, those of a
  \<^verbatim>\<open>Partial<ViewerSettings>\<close> \<open>ps_\<close> (\<open>None\<close> for a key the object lacks), the props
  \<open>p_\<close> (\<open>None\<close> for a prop that is not supplied) and the component's state \<open>lv_\<close>.
\<close>

record ViewerSettings =
  vs_paginationScale :: rat
  vs_showPageNumbers :: bool
  vs_renderFootnotesAndEndnotes :: bool
  vs_renderHeadersAndFooters :: bool
  vs_commentMode :: string
  vs_annotationMode :: string
  vs_renderTrackedChanges :: bool
  vs_showDeletedContent :: bool
  vs_renderMoveOperations :: bool
  vs_pageTitle :: string
  vs_cssPrefix :: string
  vs_fabricateClasses :: bool
  vs_additionalCss :: string
  vs_commentCssClassPrefix :: string
  vs_annotationCssClassPrefix :: string

record PartialSettings =
  ps_paginationScale :: "rat option"
  ps_showPageNumbers :: "bool option"
  ps_renderFootnotesAndEndnotes :: "bool option"
  ps_renderHeadersAndFooters :: "bool option"
  ps_commentMode :: "string option"
  ps_annotationMode :: "string option"
  ps_renderTrackedChanges :: "bool option"
  ps_showDeletedContent :: "bool option"
  ps_renderMoveOperations :: "bool option"
  ps_pageTitle :: "string option"
  ps_cssPrefix :: "string option"
  ps_fabricateClasses :: "bool option"
  ps_additionalCss :: "string option"
  ps_commentCssClassPrefix :: "string option"
  ps_annotationCssClassPrefix :: "string option"

definition DEFAULT_SETTINGS :: ViewerSettings where
  "DEFAULT_SETTINGS =
     \<lparr> vs_paginationScale = toDouble (8 / 10),
       vs_showPageNumbers = True,
       vs_renderFootnotesAndEndnotes = True,
       vs_renderHeadersAndFooters = True,
       vs_commentMode = ''disabled'',
       vs_annotationMode = ''disabled'',
       vs_renderTrackedChanges = False,
       vs_showDeletedContent = True,
       vs_renderMoveOperations = True,
       vs_pageTitle = ''Document'',
       vs_cssPrefix = ''docx-'',
       vs_fabricateClasses = True,
       vs_additionalCss = '''',
       vs_commentCssClassPrefix = ''comment-'',
       vs_annotationCssClassPrefix = ''annot-'' \<rparr>"

text \<open>The empty object \<^verbatim>\<open>{}\<close>.\<close>

definition noSettings :: PartialSettings where
  "noSettings =
     \<lparr> ps_paginationScale = None, ps_showPageNumbers = None,
       ps_renderFootnotesAndEndnotes = None, ps_renderHeadersAndFooters = None,
       ps_commentMode = None, ps_annotationMode = None, ps_renderTrackedChanges = None,
       ps_showDeletedContent = None, ps_renderMoveOperations = None, ps_pageTitle = None,
       ps_cssPrefix = None, ps_fabricateClasses = None, ps_additionalCss = None,
       ps_commentCssClassPrefix = None, ps_annotationCssClassPrefix = None \<rparr>"

text \<open>The object spread \<^verbatim>\<open>{ ...base, ...updates }\<close>.\<close>

definition spread :: "ViewerSettings \<Rightarrow> PartialSettings \<Rightarrow> ViewerSettings" where
  "spread base updates =
     \<lparr> vs_paginationScale = nullish (ps_paginationScale updates) (vs_paginationScale base),
       vs_showPageNumbers = nullish (ps_showPageNumbers updates) (vs_showPageNumbers base),
       vs_renderFootnotesAndEndnotes =
         nullish (ps_renderFootnotesAndEndnotes updates) (vs_renderFootnotesAndEndnotes base),
       vs_renderHeadersAndFooters =
         nullish (ps_renderHeadersAndFooters updates) (vs_renderHeadersAndFooters base),
       vs_commentMode = nullish (ps_commentMode updates) (vs_commentMode base),
       vs_annotationMode = nullish (ps_annotationMode updates) (vs_annotationMode base),
       vs_renderTrackedChanges =
         nullish (ps_renderTrackedChanges updates) (vs_renderTrackedChanges base),
       vs_showDeletedContent = nullish (ps_showDeletedContent updates) (vs_showDeletedContent base),
       vs_renderMoveOperations =
         nullish (ps_renderMoveOperations updates) (vs_renderMoveOperations base),
       vs_pageTitle = nullish (ps_pageTitle updates) (vs_pageTitle base),
       vs_cssPrefix = nullish (ps_cssPrefix updates) (vs_cssPrefix base),
       vs_fabricateClasses = nullish (ps_fabricateClasses updates) (vs_fabricateClasses base),
       vs_additionalCss = nullish (ps_additionalCss updates) (vs_additionalCss base),
       vs_commentCssClassPrefix =
         nullish (ps_commentCssClassPrefix updates) (vs_commentCssClassPrefix base),
       vs_annotationCssClassPrefix =
         nullish (ps_annotationCssClassPrefix updates) (vs_annotationCssClassPrefix base) \<rparr>"

record DocumentMetadata =
  estimatedPageCount :: int
  sections :: "(rat \<times> rat) list"

text \<open>
  The engine as the viewer reaches it: the worker proxy made by
  \<^verbatim>\<open>createWorkerDocxodus\<close>, the value of the \<^verbatim>\<open>useDocxodus\<close> hook, and the function
  \<^verbatim>\<open>getDocumentMetadata\<close> imported from the engine package.
\<close>

record WorkerDocxodus =
  worker_convertDocxToHtml :: "File \<Rightarrow> ConversionOptions \<Rightarrow> Thrown + string"
  worker_getRevisions :: "File \<Rightarrow> Thrown + Revision list"
  worker_getDocumentMetadata :: "File \<Rightarrow> Thrown + DocumentMetadata"

record Docxodus =
  hook_isReady :: bool
  hook_isLoading :: bool
  hook_error :: "JsError option"
  hook_convertToHtml :: "File \<Rightarrow> ConversionOptions \<Rightarrow> Thrown + string"
  hook_getRevisions :: "File \<Rightarrow> Thrown + Revision list"
  getDocumentMetadata :: "File \<Rightarrow> Thrown + DocumentMetadata"

record Props =
  p_file :: "File option option"
  p_html :: "string option option"
  p_settings :: "PartialSettings option"
  p_defaultSettings :: "PartialSettings option"
  p_toolbar :: "string option"
  p_showSettingsButton :: "bool option"
  p_showRevisionsTab :: "bool option"
  p_placeholder :: "string option"
  p_useWorker :: "bool option"

text \<open>
  The callback props are modelled by what the viewer tells its parent: each call is
  appended to \<open>lv_notified\<close> (and reaches the parent when the callback is supplied).
\<close>

datatype Notification =
  OnFileChange "File option"
  | OnConversionStart
  | OnConversionComplete string
  | OnError JsError
  | OnPageChange int int
  | OnRevisionsExtracted "Revision list"
  | OnSettingsChange ViewerSettings

record ViewerState =
  lv_internalFile :: "File option"
  lv_internalHtml :: "string option"
  lv_internalSettings :: ViewerSettings
  lv_worker :: "WorkerDocxodus option"
  lv_workerReady :: bool
  lv_workerLoading :: bool
  lv_workerError :: "JsError option"
  lv_isConverting :: bool
  lv_error :: "JsError option"
  lv_fileName :: string
  lv_currentPage :: int
  lv_totalPages :: int
  lv_showSettings :: bool
  lv_viewMode :: string
  lv_revisions :: "Revision list"
  lv_isExtractingRevisions :: bool
  lv_documentMetadata :: "DocumentMetadata option"
  lv_notified :: "Notification list"

text \<open>Default values of the props, and the values the component derives in each render.\<close>

definition toolbar :: "Props \<Rightarrow> string" where
  "toolbar p = nullish (p_toolbar p) ''top''"

definition showSettingsButton :: "Props \<Rightarrow> bool" where
  "showSettingsButton p = nullish (p_showSettingsButton p) True"

definition showRevisionsTab :: "Props \<Rightarrow> bool" where
  "showRevisionsTab p = nullish (p_showRevisionsTab p) True"

definition placeholder :: "Props \<Rightarrow> string" where
  "placeholder p = nullish (p_placeholder p) ''Open a DOCX file to view''"

definition useWorker :: "Props \<Rightarrow> bool" where
  "useWorker p = nullish (p_useWorker p) True"

definition mergedDefaults :: "Props \<Rightarrow> ViewerSettings" where
  "mergedDefaults p = spread DEFAULT_SETTINGS (nullish (p_defaultSettings p) noSettings)"

definition lv_initial :: "Props \<Rightarrow> ViewerState" where
  "lv_initial p =
     \<lparr> lv_internalFile = None, lv_internalHtml = None, lv_internalSettings = mergedDefaults p,
       lv_worker = None, lv_workerReady = False, lv_workerLoading = False,
       lv_workerError = None, lv_isConverting = False, lv_error = None, lv_fileName = '''',
       lv_currentPage = 1, lv_totalPages = 0, lv_showSettings = False,
       lv_viewMode = ''document'', lv_revisions = [], lv_isExtractingRevisions = False,
       lv_documentMetadata = None, lv_notified = [] \<rparr>"

definition lv_file :: "Props \<Rightarrow> ViewerState \<Rightarrow> File option" where
  "lv_file p s = (case p_file p of Some controlledFile \<Rightarrow> controlledFile | None \<Rightarrow> lv_internalFile s)"

definition lv_html :: "Props \<Rightarrow> ViewerState \<Rightarrow> string option" where
  "lv_html p s = (case p_html p of Some controlledHtml \<Rightarrow> controlledHtml | None \<Rightarrow> lv_internalHtml s)"

definition lv_settings :: "Props \<Rightarrow> ViewerState \<Rightarrow> ViewerSettings" where
  "lv_settings p s =
     (case p_settings p of
        Some controlledSettings \<Rightarrow> spread (mergedDefaults p) controlledSettings
      | None \<Rightarrow> lv_internalSettings s)"

definition lv_isReady :: "Props \<Rightarrow> Docxodus \<Rightarrow> ViewerState \<Rightarrow> bool" where
  "lv_isReady p d s = (if useWorker p then lv_workerReady s else hook_isReady d)"

definition lv_isLoading :: "Props \<Rightarrow> Docxodus \<Rightarrow> ViewerState \<Rightarrow> bool" where
  "lv_isLoading p d s = (if useWorker p then lv_workerLoading s else hook_isLoading d)"

definition lv_initError :: "Props \<Rightarrow> Docxodus \<Rightarrow> ViewerState \<Rightarrow> JsError option" where
  "lv_initError p d s = (if useWorker p then lv_workerError s else hook_error d)"

text \<open>
  The effect that creates the worker: its start, and the two ways the promise of
  \<^verbatim>\<open>createWorkerDocxodus\<close> settles while the effect is not cancelled.
\<close>

definition workerEffect :: "Props \<Rightarrow> bool \<Rightarrow> ViewerState \<Rightarrow> ViewerState" where
  "workerEffect p isWorkerSupported s =
     (if \<not> useWorker p \<or> \<not> isWorkerSupported then s
      else s\<lparr>lv_workerLoading := True, lv_workerError := None\<rparr>)"

definition workerCreated :: "WorkerDocxodus \<Rightarrow> ViewerState \<Rightarrow> ViewerState" where
  "workerCreated workerInstance s =
     s\<lparr>lv_worker := Some workerInstance, lv_workerReady := True, lv_workerLoading := False\<rparr>"

definition workerFailed :: "Thrown \<Rightarrow> ViewerState \<Rightarrow> ViewerState" where
  "workerFailed err s = s\<lparr>lv_workerError := Some (toError err), lv_workerLoading := False\<rparr>"

definition lv_getConvertOptions :: "ViewerSettings \<Rightarrow> ConversionOptions" where
  "lv_getConvertOptions settings =
     \<lparr> co_commentRenderMode = Some (getCommentRenderMode (vs_commentMode settings)),
       co_pageTitle = Some (vs_pageTitle settings),
       co_cssPrefix = Some (vs_cssPrefix settings),
       co_fabricateClasses = Some (vs_fabricateClasses settings),
       co_additionalCss = orUndefined (vs_additionalCss settings),
       co_commentCssClassPrefix = Some (vs_commentCssClassPrefix settings),
       co_paginationMode = Some PaginationMode_Paginated,
       co_paginationScale = Some (vs_paginationScale settings),
       co_renderAnnotations = Some (vs_annotationMode settings \<noteq> ''disabled''),
       co_annotationLabelMode = getAnnotationLabelMode (vs_annotationMode settings),
       co_annotationCssClassPrefix = Some (vs_annotationCssClassPrefix settings),
       co_renderFootnotesAndEndnotes = Some (vs_renderFootnotesAndEndnotes settings),
       co_renderHeadersAndFooters = Some (vs_renderHeadersAndFooters settings),
       co_renderTrackedChanges = Some (vs_renderTrackedChanges settings),
       co_showDeletedContent = Some (vs_showDeletedContent settings),
       co_renderMoveOperations = Some (vs_renderMoveOperations settings) \<rparr>"

text \<open>
  The three engine calls, each the conditional expression
  \<^verbatim>\<open>useWorker && worker ? await worker.m(...) : await direct(...)\<close> of the source.
\<close>

definition callGetDocumentMetadata ::
  "Props \<Rightarrow> Docxodus \<Rightarrow> ViewerState \<Rightarrow> File \<Rightarrow> Thrown + DocumentMetadata" where
  "callGetDocumentMetadata p d s fileToFetch =
     (if useWorker p \<and> lv_worker s \<noteq> None
      then worker_getDocumentMetadata (the (lv_worker s)) fileToFetch
      else getDocumentMetadata d fileToFetch)"

definition callGetRevisions ::
  "Props \<Rightarrow> Docxodus \<Rightarrow> ViewerState \<Rightarrow> File \<Rightarrow> Thrown + Revision list" where
  "callGetRevisions p d s fileToExtract =
     (if useWorker p \<and> lv_worker s \<noteq> None
      then worker_getRevisions (the (lv_worker s)) fileToExtract
      else hook_getRevisions d fileToExtract)"

definition callConvert ::
  "Props \<Rightarrow> Docxodus \<Rightarrow> ViewerState \<Rightarrow> File \<Rightarrow> Thrown + string" where
  "callConvert p d s fileToConvert =
     (if useWorker p \<and> lv_worker s \<noteq> None
      then worker_convertDocxToHtml (the (lv_worker s)) fileToConvert
             (lv_getConvertOptions (lv_settings p s))
      else hook_convertToHtml d fileToConvert (lv_getConvertOptions (lv_settings p s)))"

definition notify :: "Notification \<Rightarrow> ViewerState \<Rightarrow> ViewerState" where
  "notify n s = s\<lparr>lv_notified := lv_notified s @ [n]\<rparr>"

definition fetchMetadata :: "Props \<Rightarrow> Docxodus \<Rightarrow> File \<Rightarrow> ViewerState \<Rightarrow> ViewerState" where
  "fetchMetadata p d fileToFetch s =
     (case callGetDocumentMetadata p d s fileToFetch of
        Inr metadata \<Rightarrow> s\<lparr>lv_documentMetadata := Some metadata\<rparr>
      | Inl err \<Rightarrow> s\<lparr>lv_documentMetadata := None\<rparr>)"

definition extractRevisions :: "Props \<Rightarrow> Docxodus \<Rightarrow> File \<Rightarrow> ViewerState \<Rightarrow> ViewerState" where
  "extractRevisions p d fileToExtract s =
     (if \<not> lv_isReady p d s \<or> \<not> showRevisionsTab p then s
      else
        let s1 = s\<lparr>lv_isExtractingRevisions := True\<rparr>;
            s2 = (case callGetRevisions p d s fileToExtract of
                    Inr extractedRevisions \<Rightarrow>
                      notify (OnRevisionsExtracted extractedRevisions)
                        (s1\<lparr>lv_revisions := extractedRevisions\<rparr>)
                  | Inl err \<Rightarrow> s1\<lparr>lv_revisions := []\<rparr>)
        in s2\<lparr>lv_isExtractingRevisions := False\<rparr>)"

definition convert :: "Props \<Rightarrow> Docxodus \<Rightarrow> File \<Rightarrow> ViewerState \<Rightarrow> ViewerState" where
  "convert p d fileToConvert s =
     (if \<not> lv_isReady p d s then s
      else
        let s1 = notify OnConversionStart
                   (s\<lparr>lv_isConverting := True, lv_error := None, lv_revisions := [],
                      lv_viewMode := ''document''\<rparr>);
            s2 = (case callConvert p d s fileToConvert of
                    Inr result \<Rightarrow>
                      extractRevisions p d fileToConvert
                        (notify (OnConversionComplete result)
                           (if p_html p = None then s1\<lparr>lv_internalHtml := Some result\<rparr> else s1))
                  | Inl err \<Rightarrow>
                      notify (OnError (toError err)) (s1\<lparr>lv_error := Some (toError err)\<rparr>))
        in s2\<lparr>lv_isConverting := False\<rparr>)"

definition handleFileChange :: "Props \<Rightarrow> Docxodus \<Rightarrow> File option \<Rightarrow> ViewerState \<Rightarrow> ViewerState" where
  "handleFileChange p d selected s =
     (case selected of
        None \<Rightarrow> s
      | Some selectedFile \<Rightarrow>
          let s1 = s\<lparr>lv_fileName := fname selectedFile, lv_error := None, lv_currentPage := 1,
                     lv_totalPages := 0, lv_documentMetadata := None, lv_revisions := [],
                     lv_viewMode := ''document''\<rparr>;
              s2 = (if p_file p = None
                    then s1\<lparr>lv_internalFile := Some selectedFile, lv_internalHtml := None\<rparr>
                    else s1);
              s3 = fetchMetadata p d selectedFile (notify (OnFileChange (Some selectedFile)) s2)
          in if lv_isReady p d s \<and> p_html p = None then convert p d selectedFile s3 else s3)"

definition reconvert :: "Props \<Rightarrow> Docxodus \<Rightarrow> ViewerState \<Rightarrow> ViewerState" where
  "reconvert p d s =
     (case lv_file p s of
        None \<Rightarrow> s
      | Some f \<Rightarrow> convert p d f (if p_html p = None then s\<lparr>lv_internalHtml := None\<rparr> else s))"

definition handleClear :: "Props \<Rightarrow> ViewerState \<Rightarrow> ViewerState" where
  "handleClear p s =
     (let s1 = (if p_file p = None then s\<lparr>lv_internalFile := None\<rparr> else s);
          s2 = (if p_html p = None then s1\<lparr>lv_internalHtml := None\<rparr> else s1)
      in notify (OnFileChange None)
           (s2\<lparr>lv_error := None, lv_fileName := '''', lv_currentPage := 1, lv_totalPages := 0,
               lv_revisions := [], lv_viewMode := ''document'', lv_documentMetadata := None\<rparr>))"

definition updateSettings :: "Props \<Rightarrow> PartialSettings \<Rightarrow> ViewerState \<Rightarrow> ViewerState" where
  "updateSettings p updates s =
     (let newSettings = spread (lv_settings p s) updates
      in notify (OnSettingsChange newSettings)
           (if p_settings p = None then s\<lparr>lv_internalSettings := newSettings\<rparr> else s))"

definition handleZoomIn :: "Props \<Rightarrow> ViewerState \<Rightarrow> ViewerState" where
  "handleZoomIn p s =
     updateSettings p
       (noSettings\<lparr>ps_paginationScale :=
          Some (min (jsAdd (vs_paginationScale (lv_settings p s)) (toDouble (1 / 10))) 2)\<rparr>) s"

definition handleZoomOut :: "Props \<Rightarrow> ViewerState \<Rightarrow> ViewerState" where
  "handleZoomOut p s =
     updateSettings p
       (noSettings\<lparr>ps_paginationScale :=
          Some (max (jsSub (vs_paginationScale (lv_settings p s)) (toDouble (1 / 10)))
                  (toDouble (3 / 10)))\<rparr>) s"

definition handleZoomChange :: "Props \<Rightarrow> rat \<Rightarrow> ViewerState \<Rightarrow> ViewerState" where
  "handleZoomChange p v s =
     updateSettings p
       (noSettings\<lparr>ps_paginationScale := Some (max (toDouble (3 / 10)) (min 2 v))\<rparr>) s"

definition handlePageVisible :: "int \<Rightarrow> ViewerState \<Rightarrow> ViewerState" where
  "handlePageVisible pageNumber s =
     notify (OnPageChange pageNumber (lv_totalPages s)) (s\<lparr>lv_currentPage := pageNumber\<rparr>)"

text \<open>
  The zoom handlers of the earlier viewer of unnamed/part_004, whose
  \<^verbatim>\<open>paginationScale\<close> is a state cell of its own: each is the new value of the cell.
\<close>

definition demo_handleZoomIn :: "rat \<Rightarrow> rat" where
  "demo_handleZoomIn paginationScale = min (jsAdd paginationScale (toDouble (1 / 10))) 2"

definition demo_handleZoomOut :: "rat \<Rightarrow> rat" where
  "demo_handleZoomOut paginationScale =
     max (jsSub paginationScale (toDouble (1 / 10))) (toDouble (3 / 10))"

definition demo_handleZoomChange :: "rat \<Rightarrow> rat" where
  "demo_handleZoomChange v = max (toDouble (3 / 10)) (min 2 v)"

text \<open>
  The effect that converts the file once the engine is ready. React runs it after every
  render in which one of its dependencies (\<^verbatim>\<open>isReady\<close>, \<^verbatim>\<open>file\<close>, \<^verbatim>\<open>html\<close>,
  \<^verbatim>\<open>isConverting\<close>, \<^verbatim>\<open>convert\<close>, \<^verbatim>\<open>controlledHtml\<close>) has changed; its body calls
  \<open>convert\<close> when \<open>autoConvertDue\<close> holds.
\<close>

definition autoConvertDue :: "Props \<Rightarrow> Docxodus \<Rightarrow> ViewerState \<Rightarrow> bool" where
  "autoConvertDue p d s =
     (lv_isReady p d s \<and> lv_file p s \<noteq> None \<and> \<not> truthy (lv_html p s) \<and>
      \<not> lv_isConverting s \<and> p_html p = None)"

definition autoConvert :: "Props \<Rightarrow> Docxodus \<Rightarrow> ViewerState \<Rightarrow> ViewerState" where
  "autoConvert p d s =
     (if autoConvertDue p d s then convert p d (the (lv_file p s)) s else s)"

text \<open>
  The effect that repeats the page to the parent; React runs it after a render in which
  \<^verbatim>\<open>totalPages\<close>, \<^verbatim>\<open>currentPage\<close> or \<^verbatim>\<open>onPageChange\<close> has changed.
\<close>

definition pageChangeEffect :: "ViewerState \<Rightarrow> ViewerState" where
  "pageChangeEffect s =
     (if lv_totalPages s > 0 then notify (OnPageChange (lv_currentPage s) (lv_totalPages s)) s
      else s)"

text \<open>
  The transitions of the viewer: the clicks and selections the rendered viewer offers,
  the two effects above, and the steps of the effect that creates the worker. A click
  inside the settings modal stops at the modal (\<^verbatim>\<open>stopPropagation\<close>) and does not reach
  the overlay.
\<close>

datatype ViewerEvent =
  ClickSettingsButton
  | ClickSettingsClose
  | ClickSettingsOverlay
  | ClickInsideSettingsModal
  | ClickApplyAndClose
  | ChangeSetting PartialSettings
  | ClickZoomIn
  | ClickZoomOut
  | SelectZoom rat
  | SelectFile "File option"
  | ClickClear
  | ClickDocumentTab
  | ClickChangesTab
  | PaginationCompleted int
  | PageBecameVisible int
  | AutoConvertEffect
  | PageChangeEffect
  | WorkerEffectStarted bool
  | WorkerCreated WorkerDocxodus
  | WorkerFailed Thrown

fun lv_step :: "Props \<Rightarrow> Docxodus \<Rightarrow> ViewerEvent \<Rightarrow> ViewerState \<Rightarrow> ViewerState" where
  "lv_step p d ClickSettingsButton s = s\<lparr>lv_showSettings := True\<rparr>"
| "lv_step p d ClickSettingsClose s = s\<lparr>lv_showSettings := False\<rparr>"
| "lv_step p d ClickSettingsOverlay s = s\<lparr>lv_showSettings := False\<rparr>"
| "lv_step p d ClickInsideSettingsModal s = s"
| "lv_step p d ClickApplyAndClose s = (reconvert p d s)\<lparr>lv_showSettings := False\<rparr>"
| "lv_step p d (ChangeSetting updates) s = updateSettings p updates s"
| "lv_step p d ClickZoomIn s = handleZoomIn p s"
| "lv_step p d ClickZoomOut s = handleZoomOut p s"
| "lv_step p d (SelectZoom v) s = handleZoomChange p v s"
| "lv_step p d (SelectFile selected) s = handleFileChange p d selected s"
| "lv_step p d ClickClear s = handleClear p s"
| "lv_step p d ClickDocumentTab s = s\<lparr>lv_viewMode := ''document''\<rparr>"
| "lv_step p d ClickChangesTab s = s\<lparr>lv_viewMode := ''revisions''\<rparr>"
| "lv_step p d (PaginationCompleted n) s = s\<lparr>lv_totalPages := n\<rparr>"
| "lv_step p d (PageBecameVisible n) s = handlePageVisible n s"
| "lv_step p d AutoConvertEffect s = autoConvert p d s"
| "lv_step p d PageChangeEffect s = pageChangeEffect s"
| "lv_step p d (WorkerEffectStarted isWorkerSupported) s = workerEffect p isWorkerSupported s"
| "lv_step p d (WorkerCreated workerInstance) s = workerCreated workerInstance s"
| "lv_step p d (WorkerFailed err) s = workerFailed err s"

fun lv_run :: "Props \<Rightarrow> (Docxodus \<times> ViewerEvent) list \<Rightarrow> ViewerState \<Rightarrow> ViewerState" where
  "lv_run p [] s = s"
| "lv_run p ((d, ev) # evs) s = lv_run p evs (lv_step p d ev s)"

text \<open>
  What the viewer renders: the children of its root element in document order. The
  toolbar and the content area are described by the parts whose presence depends on the
  props and the state.
\<close>

record ToolbarView =
  tb_fileLabel :: string
  tb_clearButton :: bool
  tb_viewTabs :: bool
  tb_extractingIndicator :: bool
  tb_pageControls :: bool
  tb_zoomOutDisabled :: bool
  tb_zoomInDisabled :: bool
  tb_settingsButton :: bool

datatype LoadingView = PagePlaceholders int | Spinner string

record ContentView =
  cv_initError :: "string option"
  cv_loading :: "LoadingView option"
  cv_placeholder :: "string option"
  cv_error :: "string option"
  cv_document :: "string option"
  cv_revisionPanel :: "Revision list option"

datatype ViewerChild =
  ToolbarEl ToolbarView
  | ContentEl ContentView
  | SettingsModalEl ViewerSettings

definition Toolbar :: "Props \<Rightarrow> Docxodus \<Rightarrow> ViewerState \<Rightarrow> ToolbarView" where
  "Toolbar p d s =
     \<lparr> tb_fileLabel = (if lv_fileName s \<noteq> [] then lv_fileName s else ''Open Document''),
       tb_clearButton = (lv_fileName s \<noteq> []),
       tb_viewTabs = (showRevisionsTab p \<and> length (lv_revisions s) > 0 \<and> truthy (lv_html p s)),
       tb_extractingIndicator = (showRevisionsTab p \<and> lv_isExtractingRevisions s),
       tb_pageControls =
         (truthy (lv_html p s) \<and> lv_totalPages s > 0 \<and> lv_viewMode s = ''document''),
       tb_zoomOutDisabled = (vs_paginationScale (lv_settings p s) \<le> toDouble (3 / 10)),
       tb_zoomInDisabled = (vs_paginationScale (lv_settings p s) \<ge> 2),
       tb_settingsButton = showSettingsButton p \<rparr>"

definition Content :: "Props \<Rightarrow> Docxodus \<Rightarrow> ViewerState \<Rightarrow> ContentView" where
  "Content p d s =
     (let isLoading = lv_isLoading p d s;
          initError = lv_initError p d s;
          isConverting = lv_isConverting s;
          html = lv_html p s;
          file = lv_file p s
      in \<lparr> cv_initError = map_option message initError,
           cv_loading =
             (if initError = None \<and> (isLoading \<or> isConverting) then
                (case lv_documentMetadata s of
                   Some documentMetadata \<Rightarrow>
                     if isConverting
                     then Some (PagePlaceholders
                            (if estimatedPageCount documentMetadata = 0 then 1
                             else estimatedPageCount documentMetadata))
                     else Some (Spinner
                            (if isLoading \<and> file \<noteq> None
                             then ''Loading engine & preparing document...''
                             else if isLoading then ''Loading document engine...''
                             else ''Processing document...''))
                 | None \<Rightarrow>
                     Some (Spinner
                       (if isLoading \<and> file \<noteq> None
                        then ''Loading engine & preparing document...''
                        else if isLoading then ''Loading document engine...''
                        else ''Processing document...'')))
              else None),
           cv_placeholder =
             (if \<not> isLoading \<and> initError = None \<and> \<not> truthy html \<and> \<not> isConverting \<and> file = None
              then Some (placeholder p) else None),
           cv_error =
             (case lv_error s of
                Some e \<Rightarrow> if \<not> isConverting then Some (message e) else None
              | None \<Rightarrow> None),
           cv_document =
             (if lv_viewMode s = ''document'' \<and> truthy html \<and> \<not> isConverting then html else None),
           cv_revisionPanel =
             (if lv_viewMode s = ''revisions'' \<and> truthy html \<and> \<not> isConverting
              then Some (lv_revisions s) else None) \<rparr>)"

definition DocumentViewer :: "Props \<Rightarrow> Docxodus \<Rightarrow> ViewerState \<Rightarrow> ViewerChild list" where
  "DocumentViewer p d s =
     (if toolbar p = ''top'' then [ToolbarEl (Toolbar p d s)] else []) @
     [ContentEl (Content p d s)] @
     (if toolbar p = ''bottom'' then [ToolbarEl (Toolbar p d s)] else []) @
     (if lv_showSettings s then [SettingsModalEl (lv_settings p s)] else [])"

text \<open>The kind of each child, to speak of the order of the rendered parts.\<close>

datatype ChildKind = IsToolbar | IsContent | IsSettingsModal

fun childKind :: "ViewerChild \<Rightarrow> ChildKind" where
  "childKind (ToolbarEl v) = IsToolbar"
| "childKind (ContentEl v) = IsContent"
| "childKind (SettingsModalEl v) = IsSettingsModal"

text \<open>The error messages the rendered viewer shows.\<close>

fun shownMessages :: "ViewerChild \<Rightarrow> string list" where
  "shownMessages (ContentEl v) =
     (case cv_initError v of None \<Rightarrow> [] | Some m \<Rightarrow> [m]) @
     (case cv_error v of None \<Rightarrow> [] | Some m \<Rightarrow> [m])"
| "shownMessages _ = []"

text \<open>Whether a click on the settings button is on offer: the toolbar shows the button.\<close>

fun offersSettingsButton :: "ViewerChild \<Rightarrow> bool" where
  "offersSettingsButton (ToolbarEl v) = tb_settingsButton v"
| "offersSettingsButton _ = False"

text \<open>
  The transitions on offer in a state: a click needs its control to be rendered and not
  disabled; the effects run on their own.
\<close>

fun offered :: "Props \<Rightarrow> Docxodus \<Rightarrow> ViewerState \<Rightarrow> ViewerEvent \<Rightarrow> bool" where
  "offered p d s ClickSettingsButton = list_ex offersSettingsButton (DocumentViewer p d s)"
| "offered p d s ClickSettingsClose = lv_showSettings s"
| "offered p d s ClickSettingsOverlay = lv_showSettings s"
| "offered p d s ClickInsideSettingsModal = lv_showSettings s"
| "offered p d s ClickApplyAndClose = lv_showSettings s"
| "offered p d s (ChangeSetting updates) = lv_showSettings s"
| "offered p d s ClickZoomIn =
     ((toolbar p = ''top'' \<or> toolbar p = ''bottom'') \<and> tb_pageControls (Toolbar p d s) \<and>
      \<not> tb_zoomInDisabled (Toolbar p d s))"
| "offered p d s ClickZoomOut =
     ((toolbar p = ''top'' \<or> toolbar p = ''bottom'') \<and> tb_pageControls (Toolbar p d s) \<and>
      \<not> tb_zoomOutDisabled (Toolbar p d s))"
| "offered p d s (SelectZoom v) =
     ((toolbar p = ''top'' \<or> toolbar p = ''bottom'') \<and> tb_pageControls (Toolbar p d s))"
| "offered p d s (SelectFile selected) =
     ((toolbar p = ''top'' \<or> toolbar p = ''bottom'') \<and>
      \<not> (lv_isConverting s \<or> lv_isLoading p d s))"
| "offered p d s ClickClear =
     ((toolbar p = ''top'' \<or> toolbar p = ''bottom'') \<and> tb_clearButton (Toolbar p d s) \<and>
      \<not> (lv_isConverting s \<or> lv_isLoading p d s))"
| "offered p d s ClickDocumentTab =
     ((toolbar p = ''top'' \<or> toolbar p = ''bottom'') \<and> tb_viewTabs (Toolbar p d s))"
| "offered p d s ClickChangesTab =
     ((toolbar p = ''top'' \<or> toolbar p = ''bottom'') \<and> tb_viewTabs (Toolbar p d s))"
| "offered p d s (PaginationCompleted n) = (cv_document (Content p d s) \<noteq> None)"
| "offered p d s (PageBecameVisible n) = (cv_document (Content p d s) \<noteq> None)"
| "offered p d s AutoConvertEffect = True"
| "offered p d s PageChangeEffect = True"
| "offered p d s (WorkerEffectStarted isWorkerSupported) = True"
| "offered p d s (WorkerCreated workerInstance) = True"
| "offered p d s (WorkerFailed err) = True"

fun offeredRun :: "Props \<Rightarrow> (Docxodus \<times> ViewerEvent) list \<Rightarrow> ViewerState \<Rightarrow> bool" where
  "offeredRun p [] s = True"
| "offeredRun p ((d, ev) # evs) s = (offered p d s ev \<and> offeredRun p evs (lv_step p d ev s))"

text \<open>
  The settings most recently handed to \<^verbatim>\<open>onSettingsChange\<close> carry the scale a zoom
  handler asked for, also when the settings are controlled by the parent.
\<close>

definition requestedScale :: "ViewerState \<Rightarrow> rat option" where
  "requestedScale s =
     (case rev (lv_notified s) of
        OnSettingsChange newSettings # earlier \<Rightarrow> Some (vs_paginationScale newSettings)
      | _ \<Rightarrow> None)"

definition scaleInRange :: "rat \<Rightarrow> bool" where
  "scaleInRange x = (toDouble (3 / 10) \<le> x \<and> x \<le> 2)"

text \<open>
  The route the specification describes for an engine call of the library viewer: through
  the worker proxy when \<^verbatim>\<open>useWorker\<close> is true (its default) and the proxy has been
  created, directly otherwise.
\<close>

datatype Route = ViaWorker WorkerDocxodus | Direct

definition spec_route :: "Props \<Rightarrow> ViewerState \<Rightarrow> Route" where
  "spec_route p s =
     (if p_useWorker p = Some False then Direct
      else case lv_worker s of None \<Rightarrow> Direct | Some w \<Rightarrow> ViaWorker w)"

text \<open>
  The three engine operations as the specification has them: the same operation with the
  same arguments on either route.
\<close>

definition spec_convertToHtml ::
  "Props \<Rightarrow> Docxodus \<Rightarrow> ViewerState \<Rightarrow> File \<Rightarrow> ConversionOptions \<Rightarrow> Thrown + string" where
  "spec_convertToHtml p d s f options =
     (case spec_route p s of
        ViaWorker w \<Rightarrow> worker_convertDocxToHtml w f options
      | Direct \<Rightarrow> hook_convertToHtml d f options)"

definition spec_getRevisions ::
  "Props \<Rightarrow> Docxodus \<Rightarrow> ViewerState \<Rightarrow> File \<Rightarrow> Thrown + Revision list" where
  "spec_getRevisions p d s f =
     (case spec_route p s of
        ViaWorker w \<Rightarrow> worker_getRevisions w f
      | Direct \<Rightarrow> hook_getRevisions d f)"

definition spec_getDocumentMetadata ::
  "Props \<Rightarrow> Docxodus \<Rightarrow> ViewerState \<Rightarrow> File \<Rightarrow> Thrown + DocumentMetadata" where
  "spec_getDocumentMetadata p d s f =
     (case spec_route p s of
        ViaWorker w \<Rightarrow> worker_getDocumentMetadata w f
      | Direct \<Rightarrow> getDocumentMetadata d f)"

section \<open>AnnotationViewer (unnamed/part_002): removing an annotation\<close>

text \<open>
  The engine functions take the document as a \<^verbatim>\<open>File\<close> or as bytes. \<^verbatim>\<open>atob\<close> is the
  browser's; it gives the decoded string as its character codes, or throws.
  \<open>av_console\<close> collects the calls of \<^verbatim>\<open>console.error\<close>.
\<close>

datatype DocInput = FromFile File | FromBytes "nat list"

record Annotation =
  an_id :: string
  an_label :: string
  an_color :: string

record AnnotationResult =
  ar_success :: bool
  ar_documentBytes :: "string option"

record AnnotationEngine =
  ae_isReady :: bool
  ae_isInitializing :: bool
  ae_convertToHtml :: "DocInput \<Rightarrow> ConversionOptions \<Rightarrow> Thrown + string"
  ae_getAnnotations :: "DocInput \<Rightarrow> Thrown + Annotation list"
  ae_removeAnnotation :: "nat list \<Rightarrow> string \<Rightarrow> Thrown + AnnotationResult option"
  ae_atob :: "string \<Rightarrow> Thrown + nat list"

record AnnotationState =
  av_file :: "File option"
  av_fileName :: string
  av_documentBytes :: "nat list option"
  av_annotations :: "Annotation list"
  av_html :: "string option"
  av_isLoading :: bool
  av_error :: "JsError option"
  av_showAddForm :: bool
  av_isAdding :: bool
  av_addError :: "string option"
  av_console :: "(string \<times> Thrown) list"

definition annotationOptions :: ConversionOptions where
  "annotationOptions =
     noOptions\<lparr>co_renderAnnotations := Some True,
               co_annotationLabelMode := Some AnnotationLabelMode_Above\<rparr>"

definition consoleError :: "Thrown \<Rightarrow> AnnotationState \<Rightarrow> AnnotationState" where
  "consoleError err s = s\<lparr>av_console := av_console s @ [(''Failed to remove annotation:'', err)]\<rparr>"

definition handleRemoveAnnotation ::
  "AnnotationEngine \<Rightarrow> string \<Rightarrow> AnnotationState \<Rightarrow> AnnotationState" where
  "handleRemoveAnnotation e annotationId s =
     (case av_documentBytes s of
        None \<Rightarrow> s
      | Some documentBytes \<Rightarrow>
          (case ae_removeAnnotation e documentBytes annotationId of
             Inl err \<Rightarrow> consoleError err s
           | Inr None \<Rightarrow> s
           | Inr (Some result) \<Rightarrow>
               if ar_success result \<and> truthy (ar_documentBytes result) then
                 (case ae_atob e (the (ar_documentBytes result)) of
                    Inl err \<Rightarrow> consoleError err s
                  | Inr binaryString \<Rightarrow>
                      let bytes = map (\<lambda>c. c mod 256) binaryString;
                          s1 = s\<lparr>av_documentBytes := Some bytes\<rparr>
                      in (case ae_getAnnotations e (FromBytes bytes) of
                            Inl err \<Rightarrow> consoleError err s1
                          | Inr annots \<Rightarrow>
                              let s2 = s1\<lparr>av_annotations := annots\<rparr>
                              in (case ae_convertToHtml e (FromBytes bytes) annotationOptions of
                                    Inl err \<Rightarrow> consoleError err s2
                                  | Inr htmlResult \<Rightarrow> s2\<lparr>av_html := Some htmlResult\<rparr>)))
               else s))"

text \<open>The messages the annotation viewer shows: the error pane and the form's error.\<close>

definition av_shownMessages :: "AnnotationEngine \<Rightarrow> AnnotationState \<Rightarrow> string list" where
  "av_shownMessages e s =
     (let isProcessing = (av_isLoading s \<or> ae_isInitializing e)
      in (case av_error s of
            Some err \<Rightarrow> if \<not> isProcessing then [message err] else []
          | None \<Rightarrow> []) @
         (case av_addError s of
            Some addError \<Rightarrow>
              if av_file s \<noteq> None \<and> \<not> isProcessing \<and> av_error s = None \<and> av_showAddForm s
                 \<and> addError \<noteq> []
              then [addError] else []
          | None \<Rightarrow> []))"

section \<open>The development server's middleware (unnamed/part_000, wasmPublicPlugin)\<close>

text \<open>
  Node's \<^verbatim>\<open>path.join\<close>, \<^verbatim>\<open>fs.existsSync\<close> and \<^verbatim>\<open>fs.readFileSync\<close> are parameters;
  a read gives the file's bytes or throws. The response is its headers (\<^verbatim>\<open>setHeader\<close>
  replaces a header of the same name) and the body it was ended with, if it was.
\<close>

record NodeFs =
  join :: "string \<Rightarrow> string \<Rightarrow> string"
  existsSync :: "string \<Rightarrow> bool"
  readFileSync :: "string \<Rightarrow> Thrown + nat list"

record Response =
  headers :: "string \<rightharpoonup> string"
  body :: "nat list option"

definition setHeader :: "string \<Rightarrow> string \<Rightarrow> Response \<Rightarrow> Response" where
  "setHeader k v res = res\<lparr>headers := (headers res)(k \<mapsto> v)\<rparr>"

datatype Handled =
  Ended Response
  | NextCalled Response
  | Raised Thrown Response

definition middleware :: "NodeFs \<Rightarrow> string \<Rightarrow> string option \<Rightarrow> Response \<Rightarrow> Handled" where
  "middleware fs publicDir req_url res =
     (let url = (case req_url of None \<Rightarrow> '''' | Some u \<Rightarrow> u)
      in if startsWith url ''/wasm/_framework/'' then
           (let filePath = join fs publicDir url
            in if existsSync fs filePath then
                 (case readFileSync fs filePath of
                    Inl err \<Rightarrow> Raised err res
                  | Inr content \<Rightarrow>
                      let res1 =
                            (if endsWith url ''.js''
                             then setHeader ''Content-Type'' ''application/javascript'' res
                             else if endsWith url ''.wasm''
                             then setHeader ''Content-Type'' ''application/wasm'' res
                             else if endsWith url ''.json''
                             then setHeader ''Content-Type'' ''application/json'' res
                             else res);
                          res2 = setHeader ''Cross-Origin-Opener-Policy'' ''same-origin'' res1;
                          res3 = setHeader ''Cross-Origin-Embedder-Policy'' ''require-corp'' res2
                      in Ended (res3\<lparr>body := Some content\<rparr>))
               else NextCalled res)
         else NextCalled res)"

section \<open>Sample inputs\<close>

definition sampleFile :: File where
  "sampleFile = \<lparr> fname = ''a.docx'', fbytes = [80, 75] \<rparr>"

definition sampleRevision :: "string \<Rightarrow> string \<Rightarrow> Revision" where
  "sampleRevision ty txt =
     \<lparr> author = ''John Doe'', date = ''2024-01-15T10:30:00Z'', revisionType = ty,
       revText = txt, isMoveSource = None, formatChange = None \<rparr>"

text \<open>The guards as the test setup mocks them: a comparison of \<^verbatim>\<open>revisionType\<close>.\<close>

definition sampleGuards :: RevisionGuards where
  "sampleGuards =
     \<lparr> isInsertion = (\<lambda>r. revisionType r = ''Inserted''),
       isDeletion = (\<lambda>r. revisionType r = ''Deleted''),
       isMove = (\<lambda>r. revisionType r = ''Moved''),
       isFormatChange = (\<lambda>r. revisionType r = ''FormatChanged'') \<rparr>"

definition hookFailing :: DemoHook where
  "hookFailing =
     \<lparr> dh_isReady = True, dh_isLoading = False, dh_initError = None,
       dh_convertToHtml = (\<lambda>f options. Inl (ThrownError (NewError ''corrupt file''))) \<rparr>"

text \<open>An engine that answers with whether it was handed a pagination scale.\<close>

definition hookReportingScale :: DemoHook where
  "hookReportingScale =
     \<lparr> dh_isReady = True, dh_isLoading = False, dh_initError = None,
       dh_convertToHtml =
         (\<lambda>f options. Inr (if co_paginationScale options = None then ''scale undefined''
                            else ''scale given'')) \<rparr>"

text \<open>The demo viewer with a document shown and pagination switched on.\<close>

definition paginatedState :: DemoState where
  "paginatedState =
     dv_initial\<lparr>dv_enablePagination := True, dv_pendingFile := Some sampleFile,
                dv_fileName := ''a.docx'', dv_html := Some ''<p>pages</p>''\<rparr>"

text \<open>The user opens a document and switches pagination on.\<close>

definition openThenPaginate :: "(DemoHook \<times> DemoEvent) list" where
  "openThenPaginate =
     [(hookReportingScale, FileChange (Some sampleFile)),
      (hookReportingScale, PaginationToggle True)]"

text \<open>The library viewer with no prop supplied, and an engine whose every call fails.\<close>

definition defaultProps :: Props where
  "defaultProps =
     \<lparr> p_file = None, p_html = None, p_settings = None, p_defaultSettings = None,
       p_toolbar = None, p_showSettingsButton = None, p_showRevisionsTab = None,
       p_placeholder = None, p_useWorker = None \<rparr>"

definition failingWorker :: WorkerDocxodus where
  "failingWorker =
     \<lparr> worker_convertDocxToHtml = (\<lambda>f options. Inl (ThrownError (NewError ''not a DOCX file''))),
       worker_getRevisions = (\<lambda>f. Inl (ThrownError (NewError ''revisions unreadable''))),
       worker_getDocumentMetadata = (\<lambda>f. Inl (ThrownError (NewError ''metadata unreadable''))) \<rparr>"

definition failingDocxodus :: Docxodus where
  "failingDocxodus =
     \<lparr> hook_isReady = True, hook_isLoading = False, hook_error = None,
       hook_convertToHtml = (\<lambda>f options. Inl (ThrownError (NewError ''not a DOCX file''))),
       hook_getRevisions = (\<lambda>f. Inl (ThrownError (NewError ''revisions unreadable''))),
       getDocumentMetadata = (\<lambda>f. Inl (ThrownError (NewError ''metadata unreadable''))) \<rparr>"

definition readyState :: ViewerState where
  "readyState = workerCreated failingWorker (lv_initial defaultProps)"

text \<open>A worker and an engine whose answers tell which of the two was asked.\<close>

definition answeringWorker :: WorkerDocxodus where
  "answeringWorker =
     \<lparr> worker_convertDocxToHtml = (\<lambda>f options. Inr ''<p>from the worker</p>''),
       worker_getRevisions = (\<lambda>f. Inr [sampleRevision ''Inserted'' ''from the worker'']),
       worker_getDocumentMetadata =
         (\<lambda>f. Inr \<lparr> estimatedPageCount = 2, sections = [] \<rparr>) \<rparr>"

definition answeringDocxodus :: Docxodus where
  "answeringDocxodus =
     \<lparr> hook_isReady = True, hook_isLoading = False, hook_error = None,
       hook_convertToHtml = (\<lambda>f options. Inr ''<p>direct</p>''),
       hook_getRevisions = (\<lambda>f. Inr [sampleRevision ''Deleted'' ''direct'']),
       getDocumentMetadata = (\<lambda>f. Inr \<lparr> estimatedPageCount = 1, sections = [] \<rparr>) \<rparr>"

definition workerState :: ViewerState where
  "workerState = workerCreated answeringWorker (lv_initial defaultProps)"

text \<open>
  Three workers of which one call each fails, and the viewer once each has been created.
\<close>

definition conversionFailsState :: ViewerState where
  "conversionFailsState =
     workerCreated
       (answeringWorker\<lparr>worker_convertDocxToHtml :=
          (\<lambda>f options. Inl (ThrownError (NewError ''not a DOCX file'')))\<rparr>)
       (lv_initial defaultProps)"

definition metadataFailsState :: ViewerState where
  "metadataFailsState =
     workerCreated
       (answeringWorker\<lparr>worker_getDocumentMetadata :=
          (\<lambda>f. Inl (ThrownError (NewError ''metadata unreadable'')))\<rparr>)
       (lv_initial defaultProps)"

definition revisionsFailState :: ViewerState where
  "revisionsFailState =
     workerCreated
       (answeringWorker\<lparr>worker_getRevisions :=
          (\<lambda>f. Inl (ThrownError (NewError ''revisions unreadable'')))\<rparr>)
       (lv_initial defaultProps)"

text \<open>The viewer without its settings button, and the viewer without a toolbar.\<close>

definition hiddenButtonProps :: Props where
  "hiddenButtonProps = defaultProps\<lparr>p_showSettingsButton := Some False\<rparr>"

definition noToolbarProps :: Props where
  "noToolbarProps = defaultProps\<lparr>p_toolbar := Some ''none''\<rparr>"

text \<open>
  The user selects a file while every conversion fails; the auto-convert effect then
  runs \<open>n\<close> times.
\<close>

definition failingRun :: "nat \<Rightarrow> (Docxodus \<times> ViewerEvent) list" where
  "failingRun n =
     (failingDocxodus, SelectFile (Some sampleFile)) #
     replicate n (failingDocxodus, AutoConvertEffect)"

text \<open>An annotation viewer with a document loaded, and an engine whose removal fails.\<close>

definition failingAnnotationEngine :: AnnotationEngine where
  "failingAnnotationEngine =
     \<lparr> ae_isReady = True, ae_isInitializing = False,
       ae_convertToHtml = (\<lambda>doc options. Inr ''<p>doc</p>''),
       ae_getAnnotations = (\<lambda>doc. Inr []),
       ae_removeAnnotation = (\<lambda>bytes annotationId. Inl (ThrownError (NewError ''no such annotation''))),
       ae_atob = (\<lambda>s. Inr []) \<rparr>"

definition loadedAnnotationState :: AnnotationState where
  "loadedAnnotationState =
     \<lparr> av_file = Some sampleFile, av_fileName = ''a.docx'', av_documentBytes = Some [80, 75],
       av_annotations = [], av_html = Some ''<p>doc</p>'', av_isLoading = False,
       av_error = None, av_showAddForm = False, av_isAdding = False, av_addError = None,
       av_console = [] \<rparr>"

text \<open>
  Two file systems under the public directory: one holds the file
  \<^verbatim>\<open>public/wasm/_framework/dotnet.wasm\<close>; in the other the path
  \<^verbatim>\<open>public/wasm/_framework/\<close> exists and is a directory, which cannot be read as a file.
\<close>

definition fsWithWasm :: NodeFs where
  "fsWithWasm =
     \<lparr> join = (\<lambda>a b. a @ b),
       existsSync = (\<lambda>path. path = ''public/wasm/_framework/dotnet.wasm''),
       readFileSync = (\<lambda>path. Inr [0, 97, 115, 109]) \<rparr>"

definition fsWithDirectory :: NodeFs where
  "fsWithDirectory =
     \<lparr> join = (\<lambda>a b. a @ b),
       existsSync = (\<lambda>path. path = ''public/wasm/_framework/''),
       readFileSync =
         (\<lambda>path. Inl (ThrownError (NewError ''EISDIR: illegal operation on a directory, read''))) \<rparr>"

definition freshResponse :: Response where
  "freshResponse = \<lparr> headers = Map.empty, body = None \<rparr>"

section \<open>JavaScript numbers: rounding to a double\<close>

lemma bitlen_rat_bounds:
  assumes "0 < n"
  shows "(2::rat) powi (bitlen n - 1) \<le> of_int n" and "of_int n < (2::rat) powi bitlen n"
proof -
  from bitlen_bounds [OF assms]
  have a: "2 ^ nat (bitlen n - 1) \<le> n" and b: "n < 2 ^ nat (bitlen n)" by auto
  have pos: "0 < bitlen n"
    using assms bitlen_eq_zero_iff [of n] bitlen_nonneg [of n] by (cases "bitlen n = 0") auto
  from a have "(of_int (2 ^ nat (bitlen n - 1)) :: rat) \<le> of_int n"
    by (simp only: of_int_le_iff)
  then show "(2::rat) powi (bitlen n - 1) \<le> of_int n"
    using pos by (simp add: power_int_def)
  from b have "(of_int n :: rat) < of_int (2 ^ nat (bitlen n))"
    by (simp only: of_int_less_iff)
  then show "of_int n < (2::rat) powi bitlen n"
    using pos by (simp add: power_int_def)
qed

lemma ilog2_bounds:
  assumes "x \<noteq> 0"
  shows "2 powi ilog2 x \<le> \<bar>x\<bar>" and "\<bar>x\<bar> < 2 powi (ilog2 x + 1)"
proof -
  obtain n d where q: "quotient_of \<bar>x\<bar> = (n, d)" by (cases "quotient_of \<bar>x\<bar>")
  then have d: "0 < d" and x: "\<bar>x\<bar> = of_int n / of_int d"
    by (auto dest: quotient_of_denom_pos quotient_of_div)
  from assms have "0 < \<bar>x\<bar>" by simp
  with x d have n: "0 < n"
    by (simp add: zero_less_divide_iff)
  let ?b = "bitlen n - bitlen d"
  note nb = bitlen_rat_bounds [OF n] and db = bitlen_rat_bounds [OF d]
  have dpos: "(0::rat) < of_int d" using d by simp
  have up: "\<bar>x\<bar> < 2 powi (?b + 1)"
  proof -
    have "of_int n / of_int d < (2::rat) powi bitlen n / of_int d"
      using nb(2) dpos by (simp add: divide_strict_right_mono)
    also have "\<dots> \<le> 2 powi bitlen n / 2 powi (bitlen d - 1)"
      using db(1) by (intro divide_left_mono) (auto intro!: mult_pos_pos dpos)
    also have "\<dots> = 2 powi (bitlen n - (bitlen d - 1))"
      by (subst power_int_diff) simp_all
    also have "bitlen n - (bitlen d - 1) = ?b + 1"
      by simp
    finally show ?thesis using x by simp
  qed
  have lo: "2 powi (?b - 1) < \<bar>x\<bar>"
  proof -
    have "?b - 1 = (bitlen n - 1) - bitlen d"
      by simp
    then have "(2::rat) powi (?b - 1) = 2 powi ((bitlen n - 1) - bitlen d)"
      by (simp only:)
    also have "\<dots> = 2 powi (bitlen n - 1) / 2 powi bitlen d"
      by (subst power_int_diff) simp_all
    also have "\<dots> \<le> of_int n / 2 powi bitlen d"
      using nb(1) by (simp add: divide_right_mono)
    also have "\<dots> < of_int n / of_int d"
      using db(2) n dpos by (intro divide_strict_left_mono) (auto intro!: mult_pos_pos)
    finally show ?thesis using x by simp
  qed
  show "2 powi ilog2 x \<le> \<bar>x\<bar>"
    using lo by (auto simp: ilog2_def q Let_def)
  show "\<bar>x\<bar> < 2 powi (ilog2 x + 1)"
    using up by (auto simp: ilog2_def q Let_def not_le)
qed

lemma roundHalfEven_ge: "of_int k \<le> y \<Longrightarrow> k \<le> roundHalfEven y"
proof -
  assume "of_int k \<le> y"
  then have "k \<le> \<lfloor>y\<rfloor>" by (simp add: le_floor_iff)
  then show ?thesis by (auto simp: roundHalfEven_def Let_def)
qed

lemma roundHalfEven_le: "y \<le> of_int k \<Longrightarrow> roundHalfEven y \<le> k"
proof -
  assume a: "y \<le> of_int k"
  show ?thesis
  proof (cases "y = of_int k")
    case True
    then show ?thesis by (simp add: roundHalfEven_def)
  next
    case False
    with a have "y < of_int k" by simp
    then have "\<lfloor>y\<rfloor> < k" by (simp add: floor_less_iff)
    then show ?thesis by (auto simp: roundHalfEven_def Let_def)
  qed
qed

text \<open>Rounding does not cross a double of the same spacing.\<close>

lemma toDouble_le_grid:
  assumes "x \<le> of_int m * 2 powi max (ilog2 x - 52) (- 1074)" and "x \<noteq> 0"
  shows "toDouble x \<le> of_int m * 2 powi max (ilog2 x - 52) (- 1074)"
proof -
  let ?g = "(2::rat) powi max (ilog2 x - 52) (- 1074)"
  have g: "0 < ?g" by simp
  from assms(1) g have "x / ?g \<le> of_int m"
    by (simp add: pos_divide_le_eq)
  then have "roundHalfEven (x / ?g) \<le> m"
    by (rule roundHalfEven_le)
  then have "(of_int (roundHalfEven (x / ?g)) :: rat) \<le> of_int m"
    by (simp only: of_int_le_iff)
  with g have "of_int (roundHalfEven (x / ?g)) * ?g \<le> of_int m * ?g"
    by (simp only: mult_le_cancel_right_pos)
  with assms(2) show ?thesis
    by (simp add: toDouble_def Let_def)
qed

lemma toDouble_ge_grid:
  assumes "of_int m * 2 powi max (ilog2 x - 52) (- 1074) \<le> x" and "x \<noteq> 0"
  shows "of_int m * 2 powi max (ilog2 x - 52) (- 1074) \<le> toDouble x"
proof -
  let ?g = "(2::rat) powi max (ilog2 x - 52) (- 1074)"
  have g: "0 < ?g" by simp
  from assms(1) g have "of_int m \<le> x / ?g"
    by (simp add: pos_le_divide_eq)
  then have "m \<le> roundHalfEven (x / ?g)"
    by (rule roundHalfEven_ge)
  then have "(of_int m :: rat) \<le> of_int (roundHalfEven (x / ?g))"
    by (simp only: of_int_le_iff)
  with g have "of_int m * ?g \<le> of_int (roundHalfEven (x / ?g)) * ?g"
    by (simp only: mult_le_cancel_right_pos)
  with assms(2) show ?thesis
    by (simp add: toDouble_def Let_def)
qed

lemma ilog2_le:
  assumes "0 < x" and "x \<le> 2 powi k"
  shows "ilog2 x \<le> k"
proof (rule ccontr)
  assume "\<not> ilog2 x \<le> k"
  then have "k + 1 \<le> ilog2 x" by simp
  then have "(2::rat) powi (k + 1) \<le> 2 powi ilog2 x"
    by (intro power_int_increasing) simp_all
  also have "\<dots> \<le> x"
    using ilog2_bounds(1) [of x] assms(1) by simp
  finally have "(2::rat) powi (k + 1) \<le> 2 powi k"
    using assms(2) by simp
  then show False
    by (simp add: power_int_add)
qed

lemma ilog2_ge:
  assumes "2 powi k \<le> x"
  shows "k \<le> ilog2 x"
proof (rule ccontr)
  assume "\<not> k \<le> ilog2 x"
  then have "ilog2 x + 1 \<le> k" by simp
  then have "(2::rat) powi (ilog2 x + 1) \<le> 2 powi k"
    by (intro power_int_increasing) simp_all
  moreover have "0 < x"
    using assms by (rule less_le_trans [rotated]) simp
  then have "x < 2 powi (ilog2 x + 1)"
    using ilog2_bounds(2) [of x] by simp
  ultimately show False
    using assms by simp
qed

lemma toDouble_le_2:
  assumes "x \<le> 2"
  shows "toDouble x \<le> 2"
proof -
  consider "x = 0" | "x < 0" | "0 < x" by linarith
  then show ?thesis
  proof cases
    case 1
    then show ?thesis by (simp add: toDouble_def)
  next
    case 2
    then have "x \<le> of_int 0 * 2 powi max (ilog2 x - 52) (- 1074)" by simp
    with 2 have "toDouble x \<le> of_int 0 * 2 powi max (ilog2 x - 52) (- 1074)"
      by (intro toDouble_le_grid) simp_all
    then show ?thesis by simp
  next
    case 3
    let ?q = "max (ilog2 x - 52) (- 1074)"
    from 3 assms have "ilog2 x \<le> 1"
      by (intro ilog2_le) simp_all
    then have q: "?q \<le> 1" by simp
    have two: "of_int (2 ^ nat (1 - ?q)) * 2 powi ?q = (2::rat)"
    proof -
      have "(of_int (2 ^ nat (1 - ?q)) :: rat) = 2 powi (1 - ?q)"
        using q by (simp add: power_int_def)
      then have "of_int (2 ^ nat (1 - ?q)) * 2 powi ?q = (2::rat) powi (1 - ?q) * 2 powi ?q"
        by (simp only:)
      also have "\<dots> = 2 powi ((1 - ?q) + ?q)"
        by (subst power_int_add) simp_all
      finally show ?thesis by simp
    qed
    from assms have "x \<le> of_int (2 ^ nat (1 - ?q)) * 2 powi ?q"
      unfolding two .
    with 3 have "toDouble x \<le> of_int (2 ^ nat (1 - ?q)) * 2 powi ?q"
      by (intro toDouble_le_grid) simp_all
    then show ?thesis unfolding two .
  qed
qed

lemma toDouble_ge_binade:
  assumes "0 < x" and "- 1022 \<le> ilog2 x"
  shows "2 powi ilog2 x \<le> toDouble x"
proof -
  from assms(2) have q: "max (ilog2 x - 52) (- 1074) = ilog2 x - 52" by simp
  have p: "of_int (2 ^ 52) * 2 powi (ilog2 x - 52) = (2::rat) powi ilog2 x"
  proof -
    have "(of_int (2 ^ 52) :: rat) = 2 powi 52"
      by simp
    then have "of_int (2 ^ 52) * 2 powi (ilog2 x - 52) = (2::rat) powi 52 * 2 powi (ilog2 x - 52)"
      by (simp only:)
    also have "\<dots> = 2 powi (52 + (ilog2 x - 52))"
      by (subst power_int_add) simp_all
    finally show ?thesis by simp
  qed
  have "of_int (2 ^ 52) * 2 powi max (ilog2 x - 52) (- 1074) \<le> x"
    unfolding q p using ilog2_bounds(1) [of x] assms(1) by simp
  with assms(1) have "of_int (2 ^ 52) * 2 powi max (ilog2 x - 52) (- 1074) \<le> toDouble x"
    by (intro toDouble_ge_grid) simp_all
  then show ?thesis unfolding q p .
qed

text \<open>The literals of the zoom handlers and of the default settings, as doubles.\<close>

lemma double_one_tenth: "toDouble (1 / 10) = 3602879701896397 / 36028797018963968"
  by code_simp

lemma double_three_tenths: "toDouble (3 / 10) = 5404319552844595 / 18014398509481984"
  by code_simp

lemma double_four_tenths: "toDouble (4 / 10) = 3602879701896397 / 9007199254740992"
  by code_simp

lemma double_eight_tenths: "toDouble (8 / 10) = 3602879701896397 / 4503599627370496"
  by code_simp

text \<open>Rounding a number that is at least the double 0.3 gives at least the double 0.3.\<close>

lemma toDouble_ge_three_tenths:
  assumes "toDouble (3 / 10) \<le> x"
  shows "toDouble (3 / 10) \<le> toDouble x"
proof -
  from assms have a: "5404319552844595 / 18014398509481984 \<le> x"
    unfolding double_three_tenths .
  then have pos: "0 < x" by simp
  have "(2::rat) powi (- 2) \<le> 5404319552844595 / 18014398509481984"
    by (simp add: power_int_minus)
  with a have "(2::rat) powi (- 2) \<le> x" by simp
  then have e: "- 2 \<le> ilog2 x" by (rule ilog2_ge)
  have "5404319552844595 / 18014398509481984 \<le> toDouble x"
  proof (cases "ilog2 x = - 2")
    case True
    then have q: "max (ilog2 x - 52) (- 1074) = - 54" by simp
    have m: "of_int 5404319552844595 * 2 powi (- 54) = (5404319552844595 / 18014398509481984 :: rat)"
      by (simp add: power_int_minus)
    from a have "of_int 5404319552844595 * 2 powi max (ilog2 x - 52) (- 1074) \<le> x"
      unfolding q m .
    with pos have "of_int 5404319552844595 * 2 powi max (ilog2 x - 52) (- 1074) \<le> toDouble x"
      by (intro toDouble_ge_grid) simp_all
    then show ?thesis unfolding q m .
  next
    case False
    with e have e1: "- 1 \<le> ilog2 x" by simp
    have "(5404319552844595 / 18014398509481984 :: rat) \<le> 2 powi (- 1)"
      by (simp add: power_int_minus)
    also have "\<dots> \<le> 2 powi ilog2 x"
      using e1 by (intro power_int_increasing) simp_all
    also have "\<dots> \<le> toDouble x"
      using pos e1 by (intro toDouble_ge_binade) simp_all
    finally show ?thesis .
  qed
  then show ?thesis
    unfolding double_three_tenths .
qed

text \<open>
  The sums and differences the zoom handlers compute from the default scale and from
  scales near the ends of the range.
\<close>

lemma double_sums:
  "jsAdd (toDouble (8 / 10)) (toDouble (1 / 10)) = 8106479329266893 / 9007199254740992"
  "jsSub (toDouble (8 / 10)) (toDouble (1 / 10)) = 6305039478318695 / 9007199254740992"
  "jsSub (toDouble (4 / 10)) (toDouble (1 / 10)) = 1351079888211149 / 4503599627370496"
  "jsAdd 2 (toDouble (1 / 10)) = 4728779608739021 / 2251799813685248"
  "jsSub 2 (toDouble (1 / 10)) = 4278419646001971 / 2251799813685248"
  unfolding jsAdd_def jsSub_def by code_simp+

section \<open>The revision panel\<close>

lemma displayed_RevisionPanel:
  "displayed (RevisionPanel g flt expandedIds revs) = filteredRevisions g flt revs"
proof (cases "revs = []")
  case True
  then show ?thesis
    by (simp add: RevisionPanel_def filteredRevisions_def)
next
  case False
  have "map (revision \<circ> (\<lambda>(index, r). renderItem g expandedIds index r)) (enumerate 0 xs) = xs"
    for xs
    by (induction xs rule: rev_induct) (simp_all add: enumerate_append_eq renderItem_def Let_def)
  with False show ?thesis
    by (simp add: RevisionPanel_def)
qed

lemma map_renderItem_enumerate:
  assumes "\<And>index r. p (renderItem g expandedIds index r) = q r"
  shows "map p (map (\<lambda>(index, r). renderItem g expandedIds index r) (enumerate n xs)) = map q xs"
  using assms by (induction xs arbitrary: n) simp_all

lemma expandButton_renderItem:
  "(expandButton (renderItem g expandedIds index r) \<noteq> None) = (100 < length (revText r))"
  by (simp add: renderItem_def Let_def)

lemma displayedItems_expandButton:
  "map (\<lambda>it. expandButton it \<noteq> None) (displayedItems (RevisionPanel g flt expandedIds revs))
     = map (\<lambda>r. 100 < length (revText r)) (filteredRevisions g flt revs)"
proof (cases "revs = []")
  case True
  then show ?thesis
    by (simp add: RevisionPanel_def filteredRevisions_def)
next
  case False
  then have "displayedItems (RevisionPanel g flt expandedIds revs)
      = map (\<lambda>(index, r). renderItem g expandedIds index r)
          (enumerate 0 (filteredRevisions g flt revs))"
    by (simp add: RevisionPanel_def)
  then show ?thesis
    by (simp only: map_renderItem_enumerate
        [where p = "\<lambda>it. expandButton it \<noteq> None" and q = "\<lambda>r. 100 < length (revText r)",
          OF expandButton_renderItem])
qed

lemma substring_prefix:
  "maxLength < int (length txt) \<Longrightarrow> substring txt 0 maxLength = take (nat maxLength) txt"
  by (simp add: substring_def Let_def min_def max_def)

text \<open>
  Claim C1. For every list of revisions handed to the panel, the list it displays under
  the filter \<open>all\<close> is the list itself, and under each of the filters \<open>insertions\<close>,
  \<open>deletions\<close>, \<open>moves\<close> and \<open>formatting\<close> it is the revisions that satisfy
  \<open>isInsertion\<close>, \<open>isDeletion\<close>, \<open>isMove\<close> and \<open>isFormatChange\<close> respectively, in their
  original order.
\<close>

theorem filtered_list_is_selected_category:
  "displayed (RevisionPanel g ''all'' expandedIds revs) = revs \<and>
   displayed (RevisionPanel g ''insertions'' expandedIds revs) = filter (isInsertion g) revs \<and>
   displayed (RevisionPanel g ''deletions'' expandedIds revs) = filter (isDeletion g) revs \<and>
   displayed (RevisionPanel g ''moves'' expandedIds revs) = filter (isMove g) revs \<and>
   displayed (RevisionPanel g ''formatting'' expandedIds revs) = filter (isFormatChange g) revs"
  unfolding displayed_RevisionPanel
  by (simp add: filteredRevisions_def filterCallback_def [abs_def])

text \<open>
  Claim C10. \<open>truncateText\<close> is local to its module and its one call, in the panel,
  leaves \<open>maxLength\<close> at its default 100. For every \<open>maxLength\<close> that is not negative,
  \<open>truncateText\<close> returns a string of length at most \<open>maxLength\<close> as it is and, for a
  longer one, its first \<open>maxLength\<close> characters followed by three dots, so the result has
  at most \<open>maxLength + 3\<close> characters; the panel truncates with the default 100 and shows
  the expand button for exactly the displayed revisions whose text is longer than 100.
\<close>

theorem truncateText_bounded:
  assumes "0 \<le> maxLength"
  shows "(if int (length txt) \<le> maxLength
          then truncateText txt maxLength = txt
          else truncateText txt maxLength = take (nat maxLength) txt @ ''...'') \<and>
         int (length (truncateText txt maxLength)) \<le> maxLength + 3 \<and>
         shownText (renderItem g {} index r) = truncateText (revText r) 100 \<and>
         map (\<lambda>it. expandButton it \<noteq> None) (displayedItems (RevisionPanel g flt expandedIds revs))
           = map (\<lambda>r. 100 < length (revText r)) (filteredRevisions g flt revs)"
proof -
  have a: "if int (length txt) \<le> maxLength
          then truncateText txt maxLength = txt
          else truncateText txt maxLength = take (nat maxLength) txt @ ''...''"
    by (simp add: truncateText_def substring_prefix)
  have b: "int (length (truncateText txt maxLength)) \<le> maxLength + 3"
    using assms by (auto simp: truncateText_def substring_prefix)
  have c: "shownText (renderItem g {} index r) = truncateText (revText r) 100"
    by (simp add: renderItem_def Let_def truncateText_default_def)
  note d = displayedItems_expandButton [of g flt expandedIds revs]
  from a b c d show ?thesis
    by (intro conjI)
qed

theorem truncateText_bounded_witness:
  "(0::int) \<le> 100 \<and>
   truncateText (replicate 150 (CHR ''A'')) 100 = replicate 100 (CHR ''A'') @ ''...'' \<and>
   int (length (truncateText (replicate 150 (CHR ''A'')) 100)) \<le> 103 \<and>
   truncateText ''This is inserted text'' 100 = ''This is inserted text''"
  using truncateText_bounded [of 100 "replicate 150 (CHR ''A'')"]
    truncateText_bounded [of 100 "''This is inserted text''"]
  by simp

section \<open>The demo viewer: conversion results and errors\<close>

lemma dv_convert_keeps:
  assumes "dv_error s = None \<or> dv_html s = None"
  shows "dv_error (dv_convert h f options s) = None \<or> dv_html (dv_convert h f options s) = None"
  using assms by (auto simp: dv_convert_def Let_def split: sum.splits)

lemma dv_step_keeps:
  assumes "dv_error s = None \<or> dv_html s = None"
  shows "dv_error (dv_step h ev s) = None \<or> dv_html (dv_step h ev s) = None"
proof (cases ev)
  case (FileChange selected)
  then show ?thesis using assms
    by (cases selected) (simp_all add: dv_handleFileChange_def dv_convert_keeps)
next
  case Reconvert
  then show ?thesis using assms
    by (cases "dv_pendingFile s") (simp_all add: dv_reconvert_def dv_convert_keeps)
next
  case (CommentModeChange mode)
  then show ?thesis using assms
    by (cases "dv_pendingFile s") (simp_all add: dv_handleCommentModeChange_def dv_convert_keeps)
next
  case (PaginationToggle enabled)
  then show ?thesis using assms
    by (cases "dv_pendingFile s") (simp_all add: dv_handlePaginationToggle_def dv_convert_keeps)
next
  case (FabricateClassesChange checked)
  then show ?thesis using assms
    by (cases "dv_pendingFile s")
      (simp_all add: dv_handleFabricateClassesChange_def dv_convert_keeps)
next
  case Clear
  then show ?thesis by (simp add: dv_handleClear_def)
qed (use assms in simp_all)

lemma dv_run_keeps:
  assumes "dv_error s = None \<or> dv_html s = None"
  shows "dv_error (dv_run evs s) = None \<or> dv_html (dv_run evs s) = None"
  using assms
proof (induction evs arbitrary: s)
  case Nil
  then show ?case by simp
next
  case (Cons a evs)
  obtain h ev where a: "a = (h, ev)" by (cases a)
  from Cons.prems have "dv_error (dv_step h ev s) = None \<or> dv_html (dv_step h ev s) = None"
    by (rule dv_step_keeps)
  then show ?case unfolding a by (simp add: Cons.IH)
qed

lemma dv_render_exclusive:
  assumes "dv_error s = None \<or> dv_html s = None"
  shows "\<not> (shownError (dv_render h s) \<noteq> None \<and> shownDocument (dv_render h s) \<noteq> None)"
  using assms by (auto simp: dv_render_def Let_def split: option.splits)

lemma dv_convert_outcome:
  assumes "dh_isReady h"
  shows "case dh_convertToHtml h f options of
           Inl thrown \<Rightarrow>
             dv_html (dv_convert h f options s) = None \<and>
             dv_error (dv_convert h f options s) = Some (toError thrown) \<and>
             \<not> dv_isConverting (dv_convert h f options s)
         | Inr result \<Rightarrow>
             dv_error (dv_convert h f options s) = None \<and>
             dv_html (dv_convert h f options s) = Some result \<and>
             \<not> dv_isConverting (dv_convert h f options s)"
  using assms by (simp add: dv_convert_def Let_def split: sum.splits)

text \<open>
  Claim C9. When the demo viewer's \<open>convert\<close> reaches the engine (the engine is ready)
  and the engine fails, the html state is null afterwards, whatever it held before, and
  the error state holds the thrown error; when the engine succeeds, the error state is
  null and the html state holds the result. The error pane and the document are never
  shown together: not after a conversion, and not in any state the viewer reaches from
  its initial state.
\<close>

theorem failed_conversion_clears_html:
  assumes "dh_isReady h"
  shows "(case dh_convertToHtml h f options of
            Inl thrown \<Rightarrow>
              dv_html (dv_convert h f options s) = None \<and>
              dv_error (dv_convert h f options s) = Some (toError thrown)
          | Inr result \<Rightarrow>
              dv_error (dv_convert h f options s) = None \<and>
              dv_html (dv_convert h f options s) = Some result) \<and>
         (\<forall>e. dh_convertToHtml h f options = Inl (ThrownError e) \<longrightarrow>
              dv_error (dv_convert h f options s) = Some e) \<and>
         \<not> (shownError (dv_render h' (dv_convert h f options s)) \<noteq> None \<and>
            shownDocument (dv_render h' (dv_convert h f options s)) \<noteq> None) \<and>
         \<not> (shownError (dv_render h' (dv_run evs dv_initial)) \<noteq> None \<and>
            shownDocument (dv_render h' (dv_run evs dv_initial)) \<noteq> None)"
proof -
  have a: "case dh_convertToHtml h f options of
            Inl thrown \<Rightarrow>
              dv_html (dv_convert h f options s) = None \<and>
              dv_error (dv_convert h f options s) = Some (toError thrown)
          | Inr result \<Rightarrow>
              dv_error (dv_convert h f options s) = None \<and>
              dv_html (dv_convert h f options s) = Some result"
    using dv_convert_outcome [OF assms, of f options s] by (simp split: sum.splits)
  then have b: "\<forall>e. dh_convertToHtml h f options = Inl (ThrownError e) \<longrightarrow>
      dv_error (dv_convert h f options s) = Some e"
    by (auto split: sum.splits)
  have "dv_error (dv_convert h f options s) = None \<or> dv_html (dv_convert h f options s) = None"
    using a by (auto split: sum.splits)
  then have c: "\<not> (shownError (dv_render h' (dv_convert h f options s)) \<noteq> None \<and>
      shownDocument (dv_render h' (dv_convert h f options s)) \<noteq> None)"
    by (rule dv_render_exclusive)
  have "dv_error (dv_run evs dv_initial) = None \<or> dv_html (dv_run evs dv_initial) = None"
    by (rule dv_run_keeps) (simp add: dv_initial_def)
  then have d: "\<not> (shownError (dv_render h' (dv_run evs dv_initial)) \<noteq> None \<and>
      shownDocument (dv_render h' (dv_run evs dv_initial)) \<noteq> None)"
    by (rule dv_render_exclusive)
  from a b c d show ?thesis by blast
qed

theorem failed_conversion_clears_html_witness:
  "dh_isReady hookFailing \<and>
   dv_html paginatedState = Some ''<p>pages</p>'' \<and>
   dv_html (dv_convert hookFailing sampleFile noOptions paginatedState) = None \<and>
   dv_error (dv_convert hookFailing sampleFile noOptions paginatedState)
     = Some (NewError ''corrupt file'')"
  using failed_conversion_clears_html [of hookFailing sampleFile noOptions paginatedState]
  by (simp add: hookFailing_def paginatedState_def)

section \<open>The demo viewer: the options handed to the engine\<close>

lemma getCommentRenderMode_cases:
  "getCommentRenderMode ''endnote'' = CommentRenderMode_EndnoteStyle \<and>
   getCommentRenderMode ''inline'' = CommentRenderMode_Inline \<and>
   getCommentRenderMode ''margin'' = CommentRenderMode_Margin \<and>
   (mode \<notin> {''endnote'', ''inline'', ''margin''} \<longrightarrow>
      getCommentRenderMode mode = CommentRenderMode_Disabled)"
  by (simp add: getCommentRenderMode_def)

lemma dv_getConvertOptions_plain:
  "co_commentRenderMode (dv_getConvertOptions s None)
     = Some (getCommentRenderMode (dv_commentMode s)) \<and>
   co_paginationMode (dv_getConvertOptions s None)
     = Some (if dv_enablePagination s then PaginationMode_Paginated else PaginationMode_None) \<and>
   co_paginationScale (dv_getConvertOptions s None)
     = (if dv_enablePagination s then Some (dv_paginationScale s) else None)"
  by (simp add: dv_getConvertOptions_def nullish_def nullishU_def)

lemma dv_paginationToggleOptions_on:
  "co_paginationMode (dv_paginationToggleOptions s True) = Some PaginationMode_Paginated \<and>
   co_paginationScale (dv_paginationToggleOptions s True) = Some (dv_paginationScale s)"
  by (simp add: dv_paginationToggleOptions_def dv_getConvertOptions_def nullish_def
      nullishU_def noOverrides_def)

lemma dv_paginationToggleOptions_off:
  "co_paginationMode (dv_paginationToggleOptions s False) = Some PaginationMode_None \<and>
   co_paginationScale (dv_paginationToggleOptions s False)
     = (if dv_enablePagination s then Some (dv_paginationScale s) else None)"
  by (simp add: dv_paginationToggleOptions_def dv_getConvertOptions_def nullish_def
      nullishU_def noOverrides_def)

text \<open>
  Claim C4 says that the options handed to \<open>convertToHtml\<close> carry the pagination mode
  \<open>Paginated\<close> exactly when pagination is enabled, and the selected scale when it is and
  no scale otherwise. The code at the input where the claim fails: the user opens a
  document, switches pagination on (the engine is handed the scale 0.8, as claimed) and
  switches it off again. The handler then hands the engine the mode \<open>None\<close> together
  with the scale 0.8: the override it builds holds no scale, so the closure's value for the
  state before the switch is used. A later \<open>reconvert\<close> hands over no scale.
\<close>

theorem pagination_switched_off_forwards_scale:
  "dv_enablePagination (dv_run openThenPaginate dv_initial) \<and>
   dv_html (dv_run openThenPaginate dv_initial) = Some ''scale given'' \<and>
   co_paginationMode (dv_paginationToggleOptions (dv_run openThenPaginate dv_initial) False)
     = Some PaginationMode_None \<and>
   co_paginationScale (dv_paginationToggleOptions (dv_run openThenPaginate dv_initial) False)
     = Some (8 / 10) \<and>
   \<not> dv_enablePagination
       (dv_run (openThenPaginate @ [(hookReportingScale, PaginationToggle False)]) dv_initial) \<and>
   dv_html (dv_run (openThenPaginate @ [(hookReportingScale, PaginationToggle False)]) dv_initial)
     = Some ''scale given'' \<and>
   dv_html
       (dv_run (openThenPaginate @ [(hookReportingScale, PaginationToggle False),
                                    (hookReportingScale, Reconvert)]) dv_initial)
     = Some ''scale undefined''"
  by (simp add: openThenPaginate_def dv_initial_def dv_handleFileChange_def
      dv_handlePaginationToggle_def dv_reconvert_def dv_paginationToggleOptions_def
      dv_getConvertOptions_def dv_convert_def hookReportingScale_def nullish_def nullishU_def
      noOverrides_def noOptions_def Let_def)

section \<open>The library viewer: toolbar, settings modal, engine route, zoom\<close>

text \<open>
  Claim C6. When the \<open>toolbar\<close> prop is not supplied, the toolbar is the first child of
  the viewer, before the content area. For any props, the toolbar comes after the content
  area exactly when the prop is \<open>bottom\<close>; a toolbar is rendered exactly when the prop
  is missing, \<open>top\<close> or \<open>bottom\<close>, so none is rendered for \<open>none\<close>.
\<close>

theorem toolbar_position:
  "map childKind (DocumentViewer (p\<lparr>p_toolbar := None\<rparr>) d s)
     = IsToolbar # IsContent # (if lv_showSettings s then [IsSettingsModal] else []) \<and>
   (map childKind (DocumentViewer p d s)
      = IsContent # IsToolbar # (if lv_showSettings s then [IsSettingsModal] else []))
     = (p_toolbar p = Some ''bottom'') \<and>
   (IsToolbar \<in> set (map childKind (DocumentViewer p d s)))
     = (p_toolbar p = None \<or> p_toolbar p = Some ''top'' \<or> p_toolbar p = Some ''bottom'') \<and>
   IsToolbar \<notin> set (map childKind (DocumentViewer (p\<lparr>p_toolbar := Some ''none''\<rparr>) d s))"
proof (cases "p_toolbar p")
  case None
  then show ?thesis
    by (auto simp: DocumentViewer_def toolbar_def nullish_def)
next
  case (Some t)
  then show ?thesis
    by (auto simp: DocumentViewer_def toolbar_def nullish_def)
qed

lemma extractRevisions_showSettings:
  "lv_showSettings (extractRevisions p d f s) = lv_showSettings s"
  by (simp add: extractRevisions_def Let_def notify_def split: sum.splits)

lemma convert_showSettings:
  "lv_showSettings (convert p d f s) = lv_showSettings s"
  by (simp add: convert_def Let_def notify_def extractRevisions_showSettings split: sum.splits)

lemma fetchMetadata_showSettings:
  "lv_showSettings (fetchMetadata p d f s) = lv_showSettings s"
  by (simp add: fetchMetadata_def split: sum.splits)

lemma handleFileChange_showSettings:
  "lv_showSettings (handleFileChange p d selected s) = lv_showSettings s"
  by (simp add: handleFileChange_def Let_def notify_def convert_showSettings
      fetchMetadata_showSettings split: option.splits)

lemma updateSettings_showSettings:
  "lv_showSettings (updateSettings p updates s) = lv_showSettings s"
  by (simp add: updateSettings_def Let_def notify_def)

lemma autoConvert_showSettings:
  "lv_showSettings (autoConvert p d s) = lv_showSettings s"
  by (simp add: autoConvert_def convert_showSettings)

text \<open>Only a click on the settings button opens the modal.\<close>

lemma lv_step_stays_closed:
  assumes "ev \<noteq> ClickSettingsButton" and "\<not> lv_showSettings s"
  shows "\<not> lv_showSettings (lv_step p d ev s)"
  using assms
  by (cases ev)
    (simp_all add: updateSettings_showSettings handleZoomIn_def handleZoomOut_def
      handleZoomChange_def handleFileChange_showSettings handleClear_def Let_def notify_def
      handlePageVisible_def autoConvert_showSettings pageChangeEffect_def workerEffect_def
      workerCreated_def workerFailed_def)

lemma offered_settings_button:
  "offered p d s ClickSettingsButton
     = ((toolbar p = ''top'' \<or> toolbar p = ''bottom'') \<and> showSettingsButton p)"
  by (auto simp: DocumentViewer_def Toolbar_def)

lemma modal_stays_closed:
  assumes "\<not> ((toolbar p = ''top'' \<or> toolbar p = ''bottom'') \<and> showSettingsButton p)"
    and "offeredRun p evs s" and "\<not> lv_showSettings s"
  shows "\<not> lv_showSettings (lv_run p evs s)"
  using assms(2,3)
proof (induction evs arbitrary: s)
  case Nil
  then show ?case by simp
next
  case (Cons a evs)
  obtain d ev where a: "a = (d, ev)" by (cases a)
  from Cons.prems(1) a have off: "offered p d s ev" and rest: "offeredRun p evs (lv_step p d ev s)"
    by simp_all
  from off assms(1) have "ev \<noteq> ClickSettingsButton"
    unfolding offered_settings_button [symmetric, of p d s] by auto
  then have "\<not> lv_showSettings (lv_step p d ev s)"
    using Cons.prems(2) by (rule lv_step_stays_closed)
  with rest have "\<not> lv_showSettings (lv_run p evs (lv_step p d ev s))"
    by (rule Cons.IH)
  with a show ?case by simp
qed

text \<open>
  Claim C7, as amended. The settings modal is among the rendered children exactly when
  \<open>showSettings\<close> is true. A click on the settings button sets it to true; a click on the
  close button, on the overlay, or on Apply and Close sets it to false. So after the
  first the modal is rendered and after each of the others it is not, in every state.
  The three closing controls are on offer exactly when the modal is open, so an open
  modal can be closed. The settings button is on offer exactly when a toolbar is rendered
  (\<open>toolbar\<close> is \<open>top\<close> or \<open>bottom\<close>) and \<open>showSettingsButton\<close> is not false; from a state
  some run of offered transitions leads to an open modal exactly when the modal is open
  already or the settings button is on offer.
\<close>

theorem settings_modal_opens_and_closes:
  "(IsSettingsModal \<in> set (map childKind (DocumentViewer p d s))) = lv_showSettings s \<and>
   lv_showSettings (lv_step p d ClickSettingsButton s) \<and>
   \<not> lv_showSettings (lv_step p d ClickSettingsClose s) \<and>
   \<not> lv_showSettings (lv_step p d ClickSettingsOverlay s) \<and>
   \<not> lv_showSettings (lv_step p d ClickApplyAndClose s) \<and>
   IsSettingsModal \<in> set (map childKind (DocumentViewer p d (lv_step p d ClickSettingsButton s))) \<and>
   IsSettingsModal \<notin> set (map childKind (DocumentViewer p d (lv_step p d ClickSettingsClose s))) \<and>
   IsSettingsModal \<notin> set (map childKind (DocumentViewer p d (lv_step p d ClickSettingsOverlay s))) \<and>
   IsSettingsModal \<notin> set (map childKind (DocumentViewer p d (lv_step p d ClickApplyAndClose s))) \<and>
   offered p d s ClickSettingsClose = lv_showSettings s \<and>
   offered p d s ClickSettingsOverlay = lv_showSettings s \<and>
   offered p d s ClickApplyAndClose = lv_showSettings s \<and>
   list_ex offersSettingsButton (DocumentViewer p d s)
     = ((toolbar p = ''top'' \<or> toolbar p = ''bottom'') \<and> showSettingsButton p) \<and>
   offered p d s ClickSettingsButton
     = ((toolbar p = ''top'' \<or> toolbar p = ''bottom'') \<and> showSettingsButton p) \<and>
   (\<exists>evs. offeredRun p evs s \<and> lv_showSettings (lv_run p evs s))
     = (lv_showSettings s \<or> ((toolbar p = ''top'' \<or> toolbar p = ''bottom'') \<and> showSettingsButton p))"
proof -
  have shown: "(IsSettingsModal \<in> set (map childKind (DocumentViewer p d t))) = lv_showSettings t"
    for t
    by (auto simp: DocumentViewer_def)
  have button: "list_ex offersSettingsButton (DocumentViewer p d s)
      = ((toolbar p = ''top'' \<or> toolbar p = ''bottom'') \<and> showSettingsButton p)"
    by (auto simp: DocumentViewer_def Toolbar_def)
  have opens: "(\<exists>evs. offeredRun p evs s \<and> lv_showSettings (lv_run p evs s))
      = (lv_showSettings s \<or> ((toolbar p = ''top'' \<or> toolbar p = ''bottom'') \<and> showSettingsButton p))"
  proof
    assume "\<exists>evs. offeredRun p evs s \<and> lv_showSettings (lv_run p evs s)"
    then obtain evs where run: "offeredRun p evs s" and "lv_showSettings (lv_run p evs s)"
      by blast
    then show "lv_showSettings s \<or> ((toolbar p = ''top'' \<or> toolbar p = ''bottom'') \<and> showSettingsButton p)"
      using modal_stays_closed [of p evs s] by blast
  next
    assume "lv_showSettings s \<or> ((toolbar p = ''top'' \<or> toolbar p = ''bottom'') \<and> showSettingsButton p)"
    then show "\<exists>evs. offeredRun p evs s \<and> lv_showSettings (lv_run p evs s)"
    proof
      assume "lv_showSettings s"
      then have "offeredRun p [] s \<and> lv_showSettings (lv_run p [] s)" by simp
      then show ?thesis ..
    next
      assume "(toolbar p = ''top'' \<or> toolbar p = ''bottom'') \<and> showSettingsButton p"
      then have "offered p d s ClickSettingsButton"
        by (simp only: offered_settings_button)
      then have "offeredRun p [(d, ClickSettingsButton)] s \<and>
          lv_showSettings (lv_run p [(d, ClickSettingsButton)] s)"
        by simp
      then show ?thesis ..
    qed
  qed
  show ?thesis
    unfolding shown button opens offered_settings_button by simp
qed

text \<open>
  The claim as it stands has the modal openable always. With \<open>showSettingsButton\<close> false,
  or with \<open>toolbar\<close> \<open>none\<close>, no settings button is rendered, and no run of offered
  transitions from the initial state opens the modal.
\<close>

theorem settings_button_hidden_counterexample:
  "\<not> list_ex offersSettingsButton
       (DocumentViewer hiddenButtonProps answeringDocxodus (lv_initial hiddenButtonProps)) \<and>
   \<not> (\<exists>evs. offeredRun hiddenButtonProps evs (lv_initial hiddenButtonProps) \<and>
         lv_showSettings (lv_run hiddenButtonProps evs (lv_initial hiddenButtonProps))) \<and>
   \<not> list_ex offersSettingsButton
       (DocumentViewer noToolbarProps answeringDocxodus (lv_initial noToolbarProps)) \<and>
   \<not> (\<exists>evs. offeredRun noToolbarProps evs (lv_initial noToolbarProps) \<and>
         lv_showSettings (lv_run noToolbarProps evs (lv_initial noToolbarProps)))"
proof -
  have h: "\<not> ((toolbar hiddenButtonProps = ''top'' \<or> toolbar hiddenButtonProps = ''bottom'') \<and>
      showSettingsButton hiddenButtonProps)"
    by (simp add: hiddenButtonProps_def defaultProps_def showSettingsButton_def nullish_def)
  have n: "\<not> ((toolbar noToolbarProps = ''top'' \<or> toolbar noToolbarProps = ''bottom'') \<and>
      showSettingsButton noToolbarProps)"
    by (simp add: noToolbarProps_def defaultProps_def toolbar_def nullish_def)
  have c: "\<not> lv_showSettings (lv_initial q)" for q
    by (simp add: lv_initial_def)
  have b1: "\<not> list_ex offersSettingsButton
      (DocumentViewer hiddenButtonProps answeringDocxodus (lv_initial hiddenButtonProps))"
    using h by (auto simp: DocumentViewer_def Toolbar_def)
  have b2: "\<not> list_ex offersSettingsButton
      (DocumentViewer noToolbarProps answeringDocxodus (lv_initial noToolbarProps))"
    using n by (auto simp: DocumentViewer_def Toolbar_def)
  have r1: "\<not> (\<exists>evs. offeredRun hiddenButtonProps evs (lv_initial hiddenButtonProps) \<and>
      lv_showSettings (lv_run hiddenButtonProps evs (lv_initial hiddenButtonProps)))"
    using modal_stays_closed [OF h _ c] by blast
  have r2: "\<not> (\<exists>evs. offeredRun noToolbarProps evs (lv_initial noToolbarProps) \<and>
      lv_showSettings (lv_run noToolbarProps evs (lv_initial noToolbarProps)))"
    using modal_stays_closed [OF n _ c] by blast
  from b1 r1 b2 r2 show ?thesis
    by (intro conjI)
qed

lemma calls_by_route:
  "callConvert p d s f = spec_convertToHtml p d s f (lv_getConvertOptions (lv_settings p s))"
  "callGetRevisions p d s f = spec_getRevisions p d s f"
  "callGetDocumentMetadata p d s f = spec_getDocumentMetadata p d s f"
proof -
  show "callConvert p d s f = spec_convertToHtml p d s f (lv_getConvertOptions (lv_settings p s))"
    by (cases "p_useWorker p"; cases "lv_worker s")
      (auto simp: callConvert_def spec_convertToHtml_def spec_route_def useWorker_def nullish_def)
  show "callGetRevisions p d s f = spec_getRevisions p d s f"
    by (cases "p_useWorker p"; cases "lv_worker s")
      (auto simp: callGetRevisions_def spec_getRevisions_def spec_route_def useWorker_def
        nullish_def)
  show "callGetDocumentMetadata p d s f = spec_getDocumentMetadata p d s f"
    by (cases "p_useWorker p"; cases "lv_worker s")
      (auto simp: callGetDocumentMetadata_def spec_getDocumentMetadata_def spec_route_def
        useWorker_def nullish_def)
qed

lemma extractRevisions_internalHtml:
  "lv_internalHtml (extractRevisions p d f s) = lv_internalHtml s"
  by (simp add: extractRevisions_def Let_def notify_def split: sum.splits)

lemma conversion_frame:
  "lv_isReady p d (t\<lparr>lv_isConverting := a, lv_error := b, lv_revisions := c,
      lv_viewMode := e, lv_internalHtml := g, lv_notified := h\<rparr>) = lv_isReady p d t"
  "spec_getRevisions p d (t\<lparr>lv_isConverting := a, lv_error := b, lv_revisions := c,
      lv_viewMode := e, lv_internalHtml := g, lv_notified := h\<rparr>) f = spec_getRevisions p d t f"
  by (simp_all add: lv_isReady_def spec_getRevisions_def spec_route_def)

text \<open>
  Claim C3. \<open>fetchMetadata\<close>, \<open>extractRevisions\<close> and \<open>convert\<close> obtain their results
  from the engine by the route of the claim: from the worker proxy's method when
  \<open>useWorker\<close> is true and the proxy has been created, from the engine's function
  directly otherwise, with the same file and, for the conversion, the options made from
  the current settings on both routes. \<open>fetchMetadata\<close> always asks for the metadata;
  \<open>extractRevisions\<close> asks for the revisions when the engine is ready and
  \<open>showRevisionsTab\<close> is not false; \<open>convert\<close> asks for the conversion when the engine is
  ready and, after a conversion that succeeded, for the revisions of the same file by
  the same route.
\<close>

theorem engine_calls_follow_route:
  "fetchMetadata p d f s =
     s\<lparr>lv_documentMetadata :=
         (case spec_getDocumentMetadata p d s f of
            Inr metadata \<Rightarrow> Some metadata
          | Inl err \<Rightarrow> None)\<rparr> \<and>
   extractRevisions p d f s =
     (if lv_isReady p d s \<and> showRevisionsTab p
      then case spec_getRevisions p d s f of
             Inr extractedRevisions \<Rightarrow>
               s\<lparr>lv_revisions := extractedRevisions, lv_isExtractingRevisions := False,
                 lv_notified := lv_notified s @ [OnRevisionsExtracted extractedRevisions]\<rparr>
           | Inl err \<Rightarrow> s\<lparr>lv_revisions := [], lv_isExtractingRevisions := False\<rparr>
      else s) \<and>
   convert p d f s =
     (if lv_isReady p d s
      then case spec_convertToHtml p d s f (lv_getConvertOptions (lv_settings p s)) of
             Inr result \<Rightarrow>
               (extractRevisions p d f
                  (s\<lparr>lv_isConverting := True, lv_error := None, lv_revisions := [],
                     lv_viewMode := ''document'',
                     lv_internalHtml := (if p_html p = None then Some result else lv_internalHtml s),
                     lv_notified := lv_notified s @ [OnConversionStart, OnConversionComplete result]\<rparr>))
               \<lparr>lv_isConverting := False\<rparr>
           | Inl err \<Rightarrow>
               s\<lparr>lv_isConverting := False, lv_error := Some (toError err), lv_revisions := [],
                 lv_viewMode := ''document'',
                 lv_notified := lv_notified s @ [OnConversionStart, OnError (toError err)]\<rparr>
      else s) \<and>
   lv_revisions (convert p d f s) =
     (if lv_isReady p d s
      then case spec_convertToHtml p d s f (lv_getConvertOptions (lv_settings p s)) of
             Inr result \<Rightarrow>
               (if showRevisionsTab p
                then case spec_getRevisions p d s f of
                       Inr extractedRevisions \<Rightarrow> extractedRevisions
                     | Inl err \<Rightarrow> []
                else [])
           | Inl err \<Rightarrow> []
      else lv_revisions s)"
proof -
  have m: "fetchMetadata p d f s =
     s\<lparr>lv_documentMetadata :=
         (case spec_getDocumentMetadata p d s f of
            Inr metadata \<Rightarrow> Some metadata
          | Inl err \<Rightarrow> None)\<rparr>"
    by (simp add: fetchMetadata_def calls_by_route split: sum.splits)
  have r: "extractRevisions p d f t =
     (if lv_isReady p d t \<and> showRevisionsTab p
      then case spec_getRevisions p d t f of
             Inr extractedRevisions \<Rightarrow>
               t\<lparr>lv_revisions := extractedRevisions, lv_isExtractingRevisions := False,
                 lv_notified := lv_notified t @ [OnRevisionsExtracted extractedRevisions]\<rparr>
           | Inl err \<Rightarrow> t\<lparr>lv_revisions := [], lv_isExtractingRevisions := False\<rparr>
      else t)" for t
    by (simp add: extractRevisions_def calls_by_route Let_def notify_def split: sum.splits)
  have c: "convert p d f s =
     (if lv_isReady p d s
      then case spec_convertToHtml p d s f (lv_getConvertOptions (lv_settings p s)) of
             Inr result \<Rightarrow>
               (extractRevisions p d f
                  (s\<lparr>lv_isConverting := True, lv_error := None, lv_revisions := [],
                     lv_viewMode := ''document'',
                     lv_internalHtml := (if p_html p = None then Some result else lv_internalHtml s),
                     lv_notified := lv_notified s @ [OnConversionStart, OnConversionComplete result]\<rparr>))
               \<lparr>lv_isConverting := False\<rparr>
           | Inl err \<Rightarrow>
               s\<lparr>lv_isConverting := False, lv_error := Some (toError err), lv_revisions := [],
                 lv_viewMode := ''document'',
                 lv_notified := lv_notified s @ [OnConversionStart, OnError (toError err)]\<rparr>
      else s)"
    by (simp add: convert_def calls_by_route Let_def notify_def split: sum.splits)
  have v: "lv_revisions (convert p d f s) =
     (if lv_isReady p d s
      then case spec_convertToHtml p d s f (lv_getConvertOptions (lv_settings p s)) of
             Inr result \<Rightarrow>
               (if showRevisionsTab p
                then case spec_getRevisions p d s f of
                       Inr extractedRevisions \<Rightarrow> extractedRevisions
                     | Inl err \<Rightarrow> []
                else [])
           | Inl err \<Rightarrow> []
      else lv_revisions s)"
    unfolding c r conversion_frame
    by (simp split: sum.splits)
  from m r [of s] c v show ?thesis
    by (intro conjI)
qed

text \<open>
  With a worker proxy created and \<open>useWorker\<close> left at its default, the three results
  come from the worker; with \<open>useWorker\<close> false they come from the engine directly.
\<close>

theorem engine_calls_follow_route_witness:
  "lv_documentMetadata (fetchMetadata defaultProps answeringDocxodus sampleFile workerState)
     = Some \<lparr> estimatedPageCount = 2, sections = [] \<rparr> \<and>
   lv_revisions (extractRevisions defaultProps answeringDocxodus sampleFile workerState)
     = [sampleRevision ''Inserted'' ''from the worker''] \<and>
   lv_internalHtml (convert defaultProps answeringDocxodus sampleFile workerState)
     = Some ''<p>from the worker</p>'' \<and>
   lv_revisions (convert defaultProps answeringDocxodus sampleFile workerState)
     = [sampleRevision ''Inserted'' ''from the worker''] \<and>
   lv_documentMetadata
       (fetchMetadata (defaultProps\<lparr>p_useWorker := Some False\<rparr>) answeringDocxodus sampleFile
          workerState)
     = Some \<lparr> estimatedPageCount = 1, sections = [] \<rparr> \<and>
   lv_revisions
       (extractRevisions (defaultProps\<lparr>p_useWorker := Some False\<rparr>) answeringDocxodus sampleFile
          workerState)
     = [sampleRevision ''Deleted'' ''direct''] \<and>
   lv_internalHtml
       (convert (defaultProps\<lparr>p_useWorker := Some False\<rparr>) answeringDocxodus sampleFile
          workerState)
     = Some ''<p>direct</p>'' \<and>
   lv_revisions
       (convert (defaultProps\<lparr>p_useWorker := Some False\<rparr>) answeringDocxodus sampleFile
          workerState)
     = [sampleRevision ''Deleted'' ''direct'']"
proof -
  have w: "lv_worker workerState = Some answeringWorker" "lv_workerReady workerState"
    by (simp_all add: workerState_def workerCreated_def)
  have viaWorker: "spec_route defaultProps workerState = ViaWorker answeringWorker"
    using w by (simp add: spec_route_def defaultProps_def)
  have direct: "spec_route (defaultProps\<lparr>p_useWorker := Some False\<rparr>) workerState = Direct"
    by (simp add: spec_route_def)
  have ready: "lv_isReady defaultProps answeringDocxodus workerState"
    "lv_isReady (defaultProps\<lparr>p_useWorker := Some False\<rparr>) answeringDocxodus workerState"
    using w by (simp_all add: lv_isReady_def useWorker_def nullish_def defaultProps_def
        answeringDocxodus_def)
  have tab: "showRevisionsTab defaultProps"
    "showRevisionsTab (defaultProps\<lparr>p_useWorker := Some False\<rparr>)"
    "p_html defaultProps = None"
    "p_html (defaultProps\<lparr>p_useWorker := Some False\<rparr>) = None"
    by (simp_all add: showRevisionsTab_def nullish_def defaultProps_def)
  note a = engine_calls_follow_route [of defaultProps answeringDocxodus sampleFile workerState]
  note b = engine_calls_follow_route
    [of "defaultProps\<lparr>p_useWorker := Some False\<rparr>" answeringDocxodus sampleFile workerState]
  have a1: "lv_documentMetadata (fetchMetadata defaultProps answeringDocxodus sampleFile workerState)
     = Some \<lparr> estimatedPageCount = 2, sections = [] \<rparr>"
    unfolding a [THEN conjunct1]
    by (simp add: spec_getDocumentMetadata_def viaWorker answeringWorker_def)
  have a2: "lv_revisions (extractRevisions defaultProps answeringDocxodus sampleFile workerState)
     = [sampleRevision ''Inserted'' ''from the worker'']"
    unfolding a [THEN conjunct2, THEN conjunct1] using ready tab
    by (simp add: spec_getRevisions_def viaWorker answeringWorker_def)
  have a4: "lv_revisions (convert defaultProps answeringDocxodus sampleFile workerState)
     = [sampleRevision ''Inserted'' ''from the worker'']"
    unfolding a [THEN conjunct2, THEN conjunct2, THEN conjunct2] using ready tab
    by (simp add: spec_getRevisions_def spec_convertToHtml_def viaWorker answeringWorker_def)
  have a3: "lv_internalHtml (convert defaultProps answeringDocxodus sampleFile workerState)
     = Some ''<p>from the worker</p>''"
    unfolding a [THEN conjunct2, THEN conjunct2, THEN conjunct1] using ready tab
    by (simp add: spec_convertToHtml_def viaWorker answeringWorker_def
        extractRevisions_internalHtml)
  have b1: "lv_documentMetadata
       (fetchMetadata (defaultProps\<lparr>p_useWorker := Some False\<rparr>) answeringDocxodus sampleFile
          workerState)
     = Some \<lparr> estimatedPageCount = 1, sections = [] \<rparr>"
    unfolding b [THEN conjunct1]
    by (simp add: spec_getDocumentMetadata_def direct answeringDocxodus_def)
  have b2: "lv_revisions
       (extractRevisions (defaultProps\<lparr>p_useWorker := Some False\<rparr>) answeringDocxodus sampleFile
          workerState)
     = [sampleRevision ''Deleted'' ''direct'']"
    unfolding b [THEN conjunct2, THEN conjunct1] using ready tab
    by (simp add: spec_getRevisions_def direct answeringDocxodus_def)
  have b4: "lv_revisions
       (convert (defaultProps\<lparr>p_useWorker := Some False\<rparr>) answeringDocxodus sampleFile
          workerState)
     = [sampleRevision ''Deleted'' ''direct'']"
    unfolding b [THEN conjunct2, THEN conjunct2, THEN conjunct2] using ready tab
    by (simp add: spec_getRevisions_def spec_convertToHtml_def direct answeringDocxodus_def)
  have b3: "lv_internalHtml
       (convert (defaultProps\<lparr>p_useWorker := Some False\<rparr>) answeringDocxodus sampleFile
          workerState)
     = Some ''<p>direct</p>''"
    unfolding b [THEN conjunct2, THEN conjunct2, THEN conjunct1] using ready tab
    by (simp add: spec_convertToHtml_def direct answeringDocxodus_def
        extractRevisions_internalHtml)
  from a1 a2 a3 a4 b1 b2 b3 b4 show ?thesis
    by (intro conjI)
qed

lemma spread_scale:
  "vs_paginationScale (spread base (noSettings\<lparr>ps_paginationScale := Some v\<rparr>)) = v"
  by (simp add: spread_def nullish_def)

lemma requestedScale_updateSettings:
  "requestedScale (updateSettings p (noSettings\<lparr>ps_paginationScale := Some v\<rparr>) s) = Some v"
  by (simp add: requestedScale_def updateSettings_def notify_def Let_def spread_scale)

lemma storedScale_updateSettings:
  "p_settings p = None \<Longrightarrow>
   vs_paginationScale
     (lv_settings p (updateSettings p (noSettings\<lparr>ps_paginationScale := Some v\<rparr>) s)) = v"
  by (simp add: lv_settings_def updateSettings_def notify_def Let_def spread_scale)

lemma sample_scale:
  "vs_paginationScale (lv_settings defaultProps readyState) = toDouble (8 / 10)"
  by (simp add: readyState_def workerCreated_def lv_initial_def lv_settings_def
      defaultProps_def mergedDefaults_def spread_def DEFAULT_SETTINGS_def nullish_def
      noSettings_def)

lemma scaleInRange_zoomIn:
  assumes "scaleInRange x"
  shows "scaleInRange (min (jsAdd x (toDouble (1 / 10))) 2)"
proof -
  from assms have x: "toDouble (3 / 10) \<le> x" "x \<le> 2"
    by (simp_all add: scaleInRange_def)
  have "(0::rat) \<le> toDouble (1 / 10)"
    unfolding double_one_tenth by simp
  with x(1) have "toDouble (3 / 10) \<le> x + toDouble (1 / 10)" by simp
  then have "toDouble (3 / 10) \<le> toDouble (x + toDouble (1 / 10))"
    by (rule toDouble_ge_three_tenths)
  moreover have "toDouble (3 / 10) \<le> 2"
    unfolding double_three_tenths by simp
  ultimately show ?thesis
    by (simp add: scaleInRange_def jsAdd_def)
qed

lemma scaleInRange_zoomOut:
  assumes "scaleInRange x"
  shows "scaleInRange (max (jsSub x (toDouble (1 / 10))) (toDouble (3 / 10)))"
proof -
  from assms have x: "x \<le> 2"
    by (simp add: scaleInRange_def)
  have "(0::rat) \<le> toDouble (1 / 10)"
    unfolding double_one_tenth by simp
  with x have "x - toDouble (1 / 10) \<le> 2" by simp
  then have "toDouble (x - toDouble (1 / 10)) \<le> 2"
    by (rule toDouble_le_2)
  moreover have "toDouble (3 / 10) \<le> 2"
    unfolding double_three_tenths by simp
  ultimately show ?thesis
    by (simp add: scaleInRange_def jsSub_def)
qed

lemma scaleInRange_zoomChange: "scaleInRange (max (toDouble (3 / 10)) (min 2 v))"
proof -
  have "toDouble (3 / 10) \<le> 2"
    unfolding double_three_tenths by simp
  then show ?thesis
    by (simp add: scaleInRange_def)
qed

text \<open>
  Claim C8. The scale is a double: 0.1 and 0.3 are the doubles nearest to one tenth and
  to three tenths, and a sum or difference is rounded to the nearest double. Starting
  from a scale between 0.3 and 2.0, zoom in asks for \<open>min (scale + 0.1) 2.0\<close>, zoom out
  for \<open>max (scale - 0.1) 0.3\<close>, and the selection of a value \<open>v\<close> for
  \<open>max 0.3 (min 2.0 v)\<close>; each of these lies between 0.3 and 2.0. In the library viewer
  the new scale is handed to \<open>onSettingsChange\<close> and, when the settings are not
  controlled by the parent, becomes the viewer's scale; in the viewer of
  unnamed/part_004 it becomes the value of the state cell.
\<close>

theorem zoom_stays_in_range:
  assumes "scaleInRange (vs_paginationScale (lv_settings p s))" and "scaleInRange x"
  shows "requestedScale (handleZoomIn p s)
           = Some (min (jsAdd (vs_paginationScale (lv_settings p s)) (toDouble (1 / 10))) 2) \<and>
         requestedScale (handleZoomOut p s)
           = Some (max (jsSub (vs_paginationScale (lv_settings p s)) (toDouble (1 / 10)))
                     (toDouble (3 / 10))) \<and>
         requestedScale (handleZoomChange p v s) = Some (max (toDouble (3 / 10)) (min 2 v)) \<and>
         scaleInRange (min (jsAdd (vs_paginationScale (lv_settings p s)) (toDouble (1 / 10))) 2) \<and>
         scaleInRange (max (jsSub (vs_paginationScale (lv_settings p s)) (toDouble (1 / 10)))
                         (toDouble (3 / 10))) \<and>
         scaleInRange (max (toDouble (3 / 10)) (min 2 v)) \<and>
         (p_settings p = None \<longrightarrow>
            vs_paginationScale (lv_settings p (handleZoomIn p s))
              = min (jsAdd (vs_paginationScale (lv_settings p s)) (toDouble (1 / 10))) 2 \<and>
            vs_paginationScale (lv_settings p (handleZoomOut p s))
              = max (jsSub (vs_paginationScale (lv_settings p s)) (toDouble (1 / 10)))
                  (toDouble (3 / 10)) \<and>
            vs_paginationScale (lv_settings p (handleZoomChange p v s))
              = max (toDouble (3 / 10)) (min 2 v)) \<and>
         demo_handleZoomIn x = min (jsAdd x (toDouble (1 / 10))) 2 \<and>
         demo_handleZoomOut x = max (jsSub x (toDouble (1 / 10))) (toDouble (3 / 10)) \<and>
         demo_handleZoomChange v = max (toDouble (3 / 10)) (min 2 v) \<and>
         scaleInRange (demo_handleZoomIn x) \<and>
         scaleInRange (demo_handleZoomOut x) \<and>
         scaleInRange (demo_handleZoomChange v)"
proof -
  note r1 = scaleInRange_zoomIn [OF assms(1)]
  note r2 = scaleInRange_zoomOut [OF assms(1)]
  note r3 = scaleInRange_zoomChange [of v]
  have d1: "scaleInRange (demo_handleZoomIn x)"
    unfolding demo_handleZoomIn_def using assms(2) by (rule scaleInRange_zoomIn)
  have d2: "scaleInRange (demo_handleZoomOut x)"
    unfolding demo_handleZoomOut_def using assms(2) by (rule scaleInRange_zoomOut)
  have d3: "scaleInRange (demo_handleZoomChange v)"
    unfolding demo_handleZoomChange_def by (rule scaleInRange_zoomChange)
  have q: "requestedScale (handleZoomIn p s)
           = Some (min (jsAdd (vs_paginationScale (lv_settings p s)) (toDouble (1 / 10))) 2)"
    "requestedScale (handleZoomOut p s)
           = Some (max (jsSub (vs_paginationScale (lv_settings p s)) (toDouble (1 / 10)))
                     (toDouble (3 / 10)))"
    "requestedScale (handleZoomChange p v s) = Some (max (toDouble (3 / 10)) (min 2 v))"
    by (simp_all only: handleZoomIn_def handleZoomOut_def handleZoomChange_def
        requestedScale_updateSettings)
  have st: "p_settings p = None \<longrightarrow>
            vs_paginationScale (lv_settings p (handleZoomIn p s))
              = min (jsAdd (vs_paginationScale (lv_settings p s)) (toDouble (1 / 10))) 2 \<and>
            vs_paginationScale (lv_settings p (handleZoomOut p s))
              = max (jsSub (vs_paginationScale (lv_settings p s)) (toDouble (1 / 10)))
                  (toDouble (3 / 10)) \<and>
            vs_paginationScale (lv_settings p (handleZoomChange p v s))
              = max (toDouble (3 / 10)) (min 2 v)"
    unfolding handleZoomIn_def handleZoomOut_def handleZoomChange_def
    using storedScale_updateSettings [of p] by blast
  have e: "demo_handleZoomIn x = min (jsAdd x (toDouble (1 / 10))) 2"
    "demo_handleZoomOut x = max (jsSub x (toDouble (1 / 10))) (toDouble (3 / 10))"
    "demo_handleZoomChange v = max (toDouble (3 / 10)) (min 2 v)"
    by (simp_all only: demo_handleZoomIn_def demo_handleZoomOut_def demo_handleZoomChange_def)
  from q r1 r2 r3 st e d1 d2 d3 show ?thesis
    by (intro conjI)
qed

text \<open>
  From the default scale 0.8, zoom in asks for 0.9 and zoom out for
  0.7000000000000001; from 0.4, zoom out gives 0.30000000000000004; from 2, zoom in
  stays at 2 and zoom out gives 1.9.
\<close>

theorem zoom_stays_in_range_witness:
  "scaleInRange (vs_paginationScale (lv_settings defaultProps readyState)) \<and>
   scaleInRange 2 \<and>
   scaleInRange (toDouble (4 / 10)) \<and>
   p_settings defaultProps = None \<and>
   requestedScale (handleZoomIn defaultProps readyState)
     = Some (8106479329266893 / 9007199254740992) \<and>
   requestedScale (handleZoomOut defaultProps readyState)
     = Some (6305039478318695 / 9007199254740992) \<and>
   requestedScale (handleZoomChange defaultProps 5 readyState) = Some 2 \<and>
   vs_paginationScale (lv_settings defaultProps (handleZoomOut defaultProps readyState))
     = 6305039478318695 / 9007199254740992 \<and>
   scaleInRange (6305039478318695 / 9007199254740992) \<and>
   demo_handleZoomIn 2 = 2 \<and>
   demo_handleZoomOut 2 = 4278419646001971 / 2251799813685248 \<and>
   demo_handleZoomOut (toDouble (4 / 10)) = 1351079888211149 / 4503599627370496 \<and>
   scaleInRange (1351079888211149 / 4503599627370496)"
proof -
  have h1: "scaleInRange (vs_paginationScale (lv_settings defaultProps readyState))"
    unfolding sample_scale scaleInRange_def double_three_tenths double_eight_tenths
    by simp
  have h2: "scaleInRange 2"
    unfolding scaleInRange_def double_three_tenths by simp
  have h4: "scaleInRange (toDouble (4 / 10))"
    unfolding scaleInRange_def double_three_tenths double_four_tenths by simp
  have h3: "p_settings defaultProps = None"
    by (simp add: defaultProps_def)
  have mm:
    "min (8106479329266893 / 9007199254740992) (2::rat) = 8106479329266893 / 9007199254740992"
    "max (6305039478318695 / 9007199254740992) (5404319552844595 / 18014398509481984)
       = (6305039478318695 / 9007199254740992 :: rat)"
    "max (5404319552844595 / 18014398509481984) (min 2 5) = (2::rat)"
    "min (4728779608739021 / 2251799813685248) (2::rat) = 2"
    "max (4278419646001971 / 2251799813685248) (5404319552844595 / 18014398509481984)
       = (4278419646001971 / 2251799813685248 :: rat)"
    "max (1351079888211149 / 4503599627370496) (5404319552844595 / 18014398509481984)
       = (1351079888211149 / 4503599627370496 :: rat)"
    by simp_all
  note z1 = zoom_stays_in_range [OF h1 h2, of 5,
      unfolded sample_scale double_sums double_three_tenths mm]
  note z2 = zoom_stays_in_range [OF h1 h4, of 5,
      unfolded sample_scale double_sums double_three_tenths mm]
  from z1 have g1: "requestedScale (handleZoomIn defaultProps readyState)
      = Some (8106479329266893 / 9007199254740992)"
    by blast
  from z1 have g2: "requestedScale (handleZoomOut defaultProps readyState)
      = Some (6305039478318695 / 9007199254740992)"
    by blast
  from z1 have g3: "requestedScale (handleZoomChange defaultProps 5 readyState) = Some 2"
    by blast
  from z1 h3 have g4:
    "vs_paginationScale (lv_settings defaultProps (handleZoomOut defaultProps readyState))
      = 6305039478318695 / 9007199254740992"
    by blast
  from z1 have g5: "scaleInRange (6305039478318695 / 9007199254740992)"
    by blast
  from z1 have g6: "demo_handleZoomIn 2 = 2"
    by blast
  from z1 have g7: "demo_handleZoomOut 2 = 4278419646001971 / 2251799813685248"
    by blast
  from z2 have g8: "demo_handleZoomOut (toDouble (4 / 10)) = 1351079888211149 / 4503599627370496"
    by blast
  from z2 have "scaleInRange (demo_handleZoomOut (toDouble (4 / 10)))"
    by blast
  then have g9: "scaleInRange (1351079888211149 / 4503599627370496)"
    unfolding g8 .
  from h1 h2 h4 h3 g1 g2 g3 g4 g5 g6 g7 g8 g9 show ?thesis
    by (intro conjI)
qed

section \<open>The development server's middleware\<close>

lemma endsWith_last:
  assumes "endsWith u sfx" and "sfx \<noteq> []"
  shows "last u = last sfx"
proof -
  from assms have len: "length sfx \<le> length u" and d: "drop (length u - length sfx) u = sfx"
    by (simp_all add: endsWith_def)
  from assms(2) len have "length u - length sfx < length u"
    by (cases sfx) auto
  then have "last (drop (length u - length sfx) u) = last u"
    by (rule last_drop)
  with d show ?thesis by simp
qed

lemma endsWith_exclusive:
  "endsWith u ''.wasm'' \<Longrightarrow> \<not> endsWith u ''.js''"
  "endsWith u ''.json'' \<Longrightarrow> \<not> endsWith u ''.js''"
  "endsWith u ''.json'' \<Longrightarrow> \<not> endsWith u ''.wasm''"
  by (auto dest!: endsWith_last)

lemma middleware_serves:
  assumes "startsWith url ''/wasm/_framework/''"
    and "existsSync fs (join fs publicDir url)"
    and "readFileSync fs (join fs publicDir url) = Inr content"
  shows "\<exists>res'. middleware fs publicDir (Some url) res = Ended res' \<and>
           body res' = Some content \<and>
           headers res' ''Cross-Origin-Opener-Policy'' = Some ''same-origin'' \<and>
           headers res' ''Cross-Origin-Embedder-Policy'' = Some ''require-corp'' \<and>
           (endsWith url ''.wasm'' \<longrightarrow> headers res' ''Content-Type'' = Some ''application/wasm'') \<and>
           (endsWith url ''.js'' \<longrightarrow>
              headers res' ''Content-Type'' = Some ''application/javascript'') \<and>
           (endsWith url ''.json'' \<longrightarrow> headers res' ''Content-Type'' = Some ''application/json'')"
  using assms
  by (auto simp: middleware_def Let_def setHeader_def dest: endsWith_exclusive)

lemma middleware_passes:
  assumes "\<not> (startsWith url ''/wasm/_framework/'' \<and> existsSync fs (join fs publicDir url))"
  shows "middleware fs publicDir (Some url) res = NextCalled res"
  using assms by (auto simp: middleware_def Let_def)

lemma middleware_raises:
  assumes "startsWith url ''/wasm/_framework/''"
    and "existsSync fs (join fs publicDir url)"
    and "readFileSync fs (join fs publicDir url) = Inl err"
  shows "middleware fs publicDir (Some url) res = Raised err res"
  using assms by (simp add: middleware_def Let_def)

text \<open>
  Claim C5, as amended. For a request whose URL starts with \<open>/wasm/_framework/\<close> and
  whose path under the public directory exists and is read, the middleware ends the
  response with the bytes read, sets \<open>Content-Type\<close> to \<open>application/wasm\<close> for a URL
  ending in \<open>.wasm\<close> (\<open>application/javascript\<close> for \<open>.js\<close>, \<open>application/json\<close> for
  \<open>.json\<close>) and sets both cross-origin isolation headers. A request whose URL does not
  start with the prefix, or whose path does not exist, goes to the next handler with the
  response untouched.
\<close>

theorem middleware_serves_framework_files:
  "(startsWith url ''/wasm/_framework/'' \<and> existsSync fs (join fs publicDir url) \<and>
      readFileSync fs (join fs publicDir url) = Inr content \<longrightarrow>
      (\<exists>res'. middleware fs publicDir (Some url) res = Ended res' \<and>
         body res' = Some content \<and>
         headers res' ''Cross-Origin-Opener-Policy'' = Some ''same-origin'' \<and>
         headers res' ''Cross-Origin-Embedder-Policy'' = Some ''require-corp'' \<and>
         (endsWith url ''.wasm'' \<longrightarrow> headers res' ''Content-Type'' = Some ''application/wasm'') \<and>
         (endsWith url ''.js'' \<longrightarrow>
            headers res' ''Content-Type'' = Some ''application/javascript'') \<and>
         (endsWith url ''.json'' \<longrightarrow>
            headers res' ''Content-Type'' = Some ''application/json''))) \<and>
   (\<not> (startsWith url ''/wasm/_framework/'' \<and> existsSync fs (join fs publicDir url)) \<longrightarrow>
      middleware fs publicDir (Some url) res = NextCalled res) \<and>
   middleware fs publicDir None res = NextCalled res"
proof (intro conjI impI)
  assume "startsWith url ''/wasm/_framework/'' \<and> existsSync fs (join fs publicDir url) \<and>
      readFileSync fs (join fs publicDir url) = Inr content"
  then show "\<exists>res'. middleware fs publicDir (Some url) res = Ended res' \<and>
         body res' = Some content \<and>
         headers res' ''Cross-Origin-Opener-Policy'' = Some ''same-origin'' \<and>
         headers res' ''Cross-Origin-Embedder-Policy'' = Some ''require-corp'' \<and>
         (endsWith url ''.wasm'' \<longrightarrow> headers res' ''Content-Type'' = Some ''application/wasm'') \<and>
         (endsWith url ''.js'' \<longrightarrow>
            headers res' ''Content-Type'' = Some ''application/javascript'') \<and>
         (endsWith url ''.json'' \<longrightarrow>
            headers res' ''Content-Type'' = Some ''application/json'')"
    using middleware_serves [of url fs publicDir content res] by blast
next
  assume "\<not> (startsWith url ''/wasm/_framework/'' \<and> existsSync fs (join fs publicDir url))"
  then show "middleware fs publicDir (Some url) res = NextCalled res"
    by (rule middleware_passes)
next
  show "middleware fs publicDir None res = NextCalled res"
    by (simp add: middleware_def startsWith_def)
qed

theorem middleware_serves_framework_files_witness:
  "(\<exists>res'. middleware fsWithWasm ''public'' (Some ''/wasm/_framework/dotnet.wasm'') freshResponse
       = Ended res' \<and>
      body res' = Some [0, 97, 115, 109] \<and>
      headers res' ''Content-Type'' = Some ''application/wasm'' \<and>
      headers res' ''Cross-Origin-Opener-Policy'' = Some ''same-origin'' \<and>
      headers res' ''Cross-Origin-Embedder-Policy'' = Some ''require-corp'') \<and>
   middleware fsWithWasm ''public'' (Some ''/index.html'') freshResponse = NextCalled freshResponse \<and>
   middleware fsWithWasm ''public'' (Some ''/wasm/_framework/missing.wasm'') freshResponse
     = NextCalled freshResponse"
proof -
  have served: "startsWith ''/wasm/_framework/dotnet.wasm'' ''/wasm/_framework/'' \<and>
      existsSync fsWithWasm (join fsWithWasm ''public'' ''/wasm/_framework/dotnet.wasm'') \<and>
      readFileSync fsWithWasm (join fsWithWasm ''public'' ''/wasm/_framework/dotnet.wasm'')
        = Inr [0, 97, 115, 109]"
    by (simp add: startsWith_def fsWithWasm_def)
  have wasm: "endsWith ''/wasm/_framework/dotnet.wasm'' ''.wasm''"
    by (simp add: endsWith_def)
  have other: "\<not> (startsWith ''/index.html'' ''/wasm/_framework/'' \<and>
      existsSync fsWithWasm (join fsWithWasm ''public'' ''/index.html''))"
    by (simp add: startsWith_def)
  have missing: "\<not> (startsWith ''/wasm/_framework/missing.wasm'' ''/wasm/_framework/'' \<and>
      existsSync fsWithWasm (join fsWithWasm ''public'' ''/wasm/_framework/missing.wasm''))"
    by (simp add: fsWithWasm_def)
  from middleware_serves_framework_files
      [of "''/wasm/_framework/dotnet.wasm''" fsWithWasm "''public''" "[0, 97, 115, 109]"
        freshResponse]
    served wasm
  have a: "\<exists>res'. middleware fsWithWasm ''public'' (Some ''/wasm/_framework/dotnet.wasm'')
        freshResponse = Ended res' \<and>
      body res' = Some [0, 97, 115, 109] \<and>
      headers res' ''Content-Type'' = Some ''application/wasm'' \<and>
      headers res' ''Cross-Origin-Opener-Policy'' = Some ''same-origin'' \<and>
      headers res' ''Cross-Origin-Embedder-Policy'' = Some ''require-corp''"
    by blast
  from middleware_serves_framework_files [of "''/index.html''" fsWithWasm "''public''"] other
  have b: "middleware fsWithWasm ''public'' (Some ''/index.html'') freshResponse
      = NextCalled freshResponse"
    by blast
  from middleware_serves_framework_files
      [of "''/wasm/_framework/missing.wasm''" fsWithWasm "''public''"] missing
  have c: "middleware fsWithWasm ''public'' (Some ''/wasm/_framework/missing.wasm'') freshResponse
      = NextCalled freshResponse"
    by blast
  from a b c show ?thesis by (intro conjI)
qed

text \<open>
  The claim as it stands sends every request that is not an existing file to the next
  handler. The directory \<open>/wasm/_framework/\<close> itself exists under the public directory
  and is no file: the middleware tests only that the path exists, the read throws, and
  the next handler is not called.
\<close>

theorem middleware_directory_counterexample:
  "startsWith ''/wasm/_framework/'' ''/wasm/_framework/'' \<and>
   existsSync fsWithDirectory (join fsWithDirectory ''public'' ''/wasm/_framework/'') \<and>
   (\<forall>content. readFileSync fsWithDirectory (join fsWithDirectory ''public'' ''/wasm/_framework/'')
      \<noteq> Inr content) \<and>
   middleware fsWithDirectory ''public'' (Some ''/wasm/_framework/'') freshResponse
     \<noteq> NextCalled freshResponse"
  by (simp add: middleware_def fsWithDirectory_def startsWith_def Let_def)

lemma middleware_directory_sample:
  "middleware fsWithDirectory ''public'' (Some ''/wasm/_framework/'') freshResponse
     = Raised (ThrownError (NewError ''EISDIR: illegal operation on a directory, read''))
         freshResponse"
  by (simp add: middleware_raises startsWith_def fsWithDirectory_def)

section \<open>What becomes of an engine error\<close>

lemma fetchMetadata_swallows:
  assumes "callGetDocumentMetadata p d s f = Inl thrown"
  shows "fetchMetadata p d f s = s\<lparr>lv_documentMetadata := None\<rparr>"
  using assms by (simp add: fetchMetadata_def)

lemma extractRevisions_swallows:
  assumes "lv_isReady p d s" and "showRevisionsTab p" and "callGetRevisions p d s f = Inl thrown"
  shows "extractRevisions p d f s = s\<lparr>lv_revisions := [], lv_isExtractingRevisions := False\<rparr>"
  using assms by (simp add: extractRevisions_def Let_def)

lemma convert_fails:
  assumes "lv_isReady p d s" and "callConvert p d s f = Inl thrown"
  shows "lv_error (convert p d f s) = Some (toError thrown) \<and>
         cv_error (Content p d (convert p d f s)) = Some (message (toError thrown)) \<and>
         lv_notified (convert p d f s) = lv_notified s @ [OnConversionStart, OnError (toError thrown)]"
  using assms by (simp add: convert_def Let_def notify_def Content_def)

lemma shownMessages_ignore:
  "concat (map shownMessages (DocumentViewer p d (s\<lparr>lv_documentMetadata := m\<rparr>)))
     = concat (map shownMessages (DocumentViewer p d s))"
  "concat (map shownMessages
       (DocumentViewer p d (s\<lparr>lv_revisions := r, lv_isExtractingRevisions := b\<rparr>)))
     = concat (map shownMessages (DocumentViewer p d s))"
  by (simp_all add: DocumentViewer_def Content_def lv_isLoading_def lv_initError_def
      lv_html_def lv_file_def Let_def)

lemma removeAnnotation_logs:
  assumes "av_documentBytes a = Some bytes"
    and "ae_removeAnnotation e bytes annotationId = Inl thrown"
  shows "handleRemoveAnnotation e annotationId a
           = a\<lparr>av_console := av_console a @ [(''Failed to remove annotation:'', thrown)]\<rparr>"
  using assms by (simp add: handleRemoveAnnotation_def consoleError_def)

lemma av_shownMessages_console:
  "av_shownMessages e (a\<lparr>av_console := c\<rparr>) = av_shownMessages e a"
  by (simp add: av_shownMessages_def Let_def split: option.splits)

lemma dv_convert_shows_message:
  assumes "dh_isReady h" and "\<not> dh_isLoading h" and "dh_initError h = None"
    and "dh_convertToHtml h f options = Inl thrown"
  shows "shownError (dv_render h (dv_convert h f options s)) = Some (message (toError thrown))"
  using assms by (simp add: dv_convert_def dv_render_def Let_def)

text \<open>
  An error of \<open>removeAnnotation\<close> in the annotation viewer is caught and written to the
  console; the state and the rendered messages stay as they were.
\<close>

lemma removeAnnotation_error_only_logged:
  assumes "av_documentBytes a = Some bytes"
    and "ae_removeAnnotation e bytes annotationId = Inl thrown"
  shows "av_console (handleRemoveAnnotation e annotationId a)
           = av_console a @ [(''Failed to remove annotation:'', thrown)] \<and>
         av_error (handleRemoveAnnotation e annotationId a) = av_error a \<and>
         av_shownMessages e (handleRemoveAnnotation e annotationId a) = av_shownMessages e a"
  unfolding removeAnnotation_logs [OF assms] av_shownMessages_console by simp

lemma removeAnnotation_error_sample:
  "handleRemoveAnnotation failingAnnotationEngine ''annot-1'' loadedAnnotationState
     = loadedAnnotationState\<lparr>av_console :=
         [(''Failed to remove annotation:'', ThrownError (NewError ''no such annotation''))]\<rparr>"
  by (simp add: handleRemoveAnnotation_def consoleError_def failingAnnotationEngine_def
      loadedAnnotationState_def)

text \<open>
  After a conversion that failed, the auto-convert effect is due again and converts
  again: as long as the engine fails, every run of the effect is one more attempt.
\<close>

lemma convert_failure_state:
  assumes "lv_isReady p d s" and "callConvert p d s f = Inl thrown"
  shows "convert p d f s =
           s\<lparr>lv_isConverting := False, lv_error := Some (toError thrown), lv_revisions := [],
             lv_viewMode := ''document'',
             lv_notified := lv_notified s @ [OnConversionStart, OnError (toError thrown)]\<rparr>"
  using assms by (simp add: convert_def Let_def notify_def)

lemma failure_frame:
  "lv_isReady p d (s\<lparr>lv_isConverting := a, lv_error := b, lv_revisions := c,
      lv_viewMode := e, lv_notified := g\<rparr>) = lv_isReady p d s"
  "lv_file p (s\<lparr>lv_isConverting := a, lv_error := b, lv_revisions := c,
      lv_viewMode := e, lv_notified := g\<rparr>) = lv_file p s"
  "lv_html p (s\<lparr>lv_isConverting := a, lv_error := b, lv_revisions := c,
      lv_viewMode := e, lv_notified := g\<rparr>) = lv_html p s"
  "callConvert p d (s\<lparr>lv_isConverting := a, lv_error := b, lv_revisions := c,
      lv_viewMode := e, lv_notified := g\<rparr>) f = callConvert p d s f"
  by (auto simp: lv_isReady_def lv_file_def lv_html_def callConvert_def lv_settings_def
      cong: option.case_cong)

lemma autoConvert_retries:
  assumes "autoConvertDue p d s" and "callConvert p d s (the (lv_file p s)) = Inl thrown"
  shows "autoConvertDue p d (autoConvert p d s) \<and>
         callConvert p d (autoConvert p d s) (the (lv_file p (autoConvert p d s))) = Inl thrown \<and>
         lv_notified (autoConvert p d s)
           = lv_notified s @ [OnConversionStart, OnError (toError thrown)]"
proof -
  from assms(1) have r: "lv_isReady p d s"
    by (simp add: autoConvertDue_def)
  have c: "autoConvert p d s =
      s\<lparr>lv_isConverting := False, lv_error := Some (toError thrown), lv_revisions := [],
        lv_viewMode := ''document'',
        lv_notified := lv_notified s @ [OnConversionStart, OnError (toError thrown)]\<rparr>"
    using assms(1) convert_failure_state [OF r assms(2)] by (simp add: autoConvert_def)
  show ?thesis
    unfolding c using assms by (simp add: autoConvertDue_def failure_frame)
qed

lemma autoConvert_retries_forever:
  assumes "autoConvertDue p d s" and "callConvert p d s (the (lv_file p s)) = Inl thrown"
  shows "autoConvertDue p d ((autoConvert p d ^^ n) s) \<and>
         callConvert p d ((autoConvert p d ^^ n) s) (the (lv_file p ((autoConvert p d ^^ n) s)))
           = Inl thrown \<and>
         lv_notified ((autoConvert p d ^^ n) s)
           = lv_notified s @ concat (replicate n [OnConversionStart, OnError (toError thrown)])"
proof (induction n)
  case 0
  from assms show ?case by simp
next
  case (Suc n)
  let ?t = "(autoConvert p d ^^ n) s"
  from Suc have due: "autoConvertDue p d ?t"
    and fails: "callConvert p d ?t (the (lv_file p ?t)) = Inl thrown"
    and log: "lv_notified ?t
      = lv_notified s @ concat (replicate n [OnConversionStart, OnError (toError thrown)])"
    by simp_all
  have rep: "concat (replicate n [a, b]) @ [a, b] = concat (replicate (Suc n) [a, b])"
    for a b :: Notification
    by (induction n) simp_all
  from autoConvert_retries [OF due fails] log rep show ?case
    by simp
qed

lemma lv_run_effects:
  "lv_run p (replicate n (d, AutoConvertEffect)) s = (autoConvert p d ^^ n) s"
  by (induction n arbitrary: s) (simp_all add: funpow_swap1)

lemma offeredRun_effects: "offeredRun p (replicate n (d, AutoConvertEffect)) s"
  by (induction n arbitrary: s) simp_all

text \<open>
  Claim C2, as amended. An error of the conversion to HTML is caught by \<open>convert\<close>, in
  the demo viewer and in the library viewer, kept as an \<open>Error\<close> in the error state,
  and its message is rendered once the conversion has settled; the library viewer also
  hands the error to \<open>onError\<close>. An error of \<open>getDocumentMetadata\<close> or of
  \<open>getRevisions\<close> in the library viewer is caught and swallowed: the metadata is reset
  to null, the revisions to the empty list, the error state is left alone and the
  rendered messages are those from before. Each of the four parts stands on the failure
  of its own call alone.
\<close>

theorem engine_errors_caught_at_call:
  "(dh_isReady h \<and> \<not> dh_isLoading h \<and> dh_initError h = None \<and>
    dh_convertToHtml h f1 options = Inl t1 \<longrightarrow>
      dv_error (dv_convert h f1 options s1) = Some (toError t1) \<and>
      shownError (dv_render h (dv_convert h f1 options s1)) = Some (message (toError t1))) \<and>
   (lv_isReady p2 d2 s2 \<and> callConvert p2 d2 s2 f2 = Inl t2 \<longrightarrow>
      lv_error (convert p2 d2 f2 s2) = Some (toError t2) \<and>
      cv_error (Content p2 d2 (convert p2 d2 f2 s2)) = Some (message (toError t2)) \<and>
      lv_notified (convert p2 d2 f2 s2)
        = lv_notified s2 @ [OnConversionStart, OnError (toError t2)]) \<and>
   (callGetDocumentMetadata p3 d3 s3 f3 = Inl t3 \<longrightarrow>
      fetchMetadata p3 d3 f3 s3 = s3\<lparr>lv_documentMetadata := None\<rparr> \<and>
      concat (map shownMessages (DocumentViewer p3 d3 (fetchMetadata p3 d3 f3 s3)))
        = concat (map shownMessages (DocumentViewer p3 d3 s3))) \<and>
   (lv_isReady p4 d4 s4 \<and> showRevisionsTab p4 \<and> callGetRevisions p4 d4 s4 f4 = Inl t4 \<longrightarrow>
      extractRevisions p4 d4 f4 s4 = s4\<lparr>lv_revisions := [], lv_isExtractingRevisions := False\<rparr> \<and>
      concat (map shownMessages (DocumentViewer p4 d4 (extractRevisions p4 d4 f4 s4)))
        = concat (map shownMessages (DocumentViewer p4 d4 s4)))"
proof (intro conjI impI)
  assume a: "dh_isReady h \<and> \<not> dh_isLoading h \<and> dh_initError h = None \<and>
    dh_convertToHtml h f1 options = Inl t1"
  then show "dv_error (dv_convert h f1 options s1) = Some (toError t1)"
    using dv_convert_outcome [of h f1 options s1] by simp
  from a show "shownError (dv_render h (dv_convert h f1 options s1)) = Some (message (toError t1))"
    by (simp add: dv_convert_shows_message)
next
  assume a: "lv_isReady p2 d2 s2 \<and> callConvert p2 d2 s2 f2 = Inl t2"
  then have r: "lv_isReady p2 d2 s2" and c: "callConvert p2 d2 s2 f2 = Inl t2"
    by simp_all
  note lib = convert_fails [OF r c]
  from lib show "lv_error (convert p2 d2 f2 s2) = Some (toError t2)" by simp
  from lib show "cv_error (Content p2 d2 (convert p2 d2 f2 s2)) = Some (message (toError t2))"
    by simp
  from lib show "lv_notified (convert p2 d2 f2 s2)
      = lv_notified s2 @ [OnConversionStart, OnError (toError t2)]"
    by simp
next
  assume a: "callGetDocumentMetadata p3 d3 s3 f3 = Inl t3"
  note meta = fetchMetadata_swallows [OF a]
  show "fetchMetadata p3 d3 f3 s3 = s3\<lparr>lv_documentMetadata := None\<rparr>"
    by (rule meta)
  show "concat (map shownMessages (DocumentViewer p3 d3 (fetchMetadata p3 d3 f3 s3)))
      = concat (map shownMessages (DocumentViewer p3 d3 s3))"
    unfolding meta by (rule shownMessages_ignore)
next
  assume a: "lv_isReady p4 d4 s4 \<and> showRevisionsTab p4 \<and> callGetRevisions p4 d4 s4 f4 = Inl t4"
  then have revs: "extractRevisions p4 d4 f4 s4
      = s4\<lparr>lv_revisions := [], lv_isExtractingRevisions := False\<rparr>"
    by (intro extractRevisions_swallows) simp_all
  show "extractRevisions p4 d4 f4 s4 = s4\<lparr>lv_revisions := [], lv_isExtractingRevisions := False\<rparr>"
    by (rule revs)
  show "concat (map shownMessages (DocumentViewer p4 d4 (extractRevisions p4 d4 f4 s4)))
      = concat (map shownMessages (DocumentViewer p4 d4 s4))"
    unfolding revs by (rule shownMessages_ignore)
qed

text \<open>
  Each part on an engine of which only the call in question fails: the conversion of the
  demo viewer; the conversion of the library viewer, with metadata and revisions
  answered; the metadata alone; the revisions alone.
\<close>

theorem engine_errors_caught_at_call_witness:
  "dv_error (dv_convert hookFailing sampleFile noOptions dv_initial)
     = Some (NewError ''corrupt file'') \<and>
   shownError (dv_render hookFailing (dv_convert hookFailing sampleFile noOptions dv_initial))
     = Some ''corrupt file'' \<and>
   lv_error (convert defaultProps answeringDocxodus sampleFile conversionFailsState)
     = Some (NewError ''not a DOCX file'') \<and>
   cv_error (Content defaultProps answeringDocxodus
       (convert defaultProps answeringDocxodus sampleFile conversionFailsState))
     = Some ''not a DOCX file'' \<and>
   fetchMetadata defaultProps answeringDocxodus sampleFile metadataFailsState
     = metadataFailsState\<lparr>lv_documentMetadata := None\<rparr> \<and>
   extractRevisions defaultProps answeringDocxodus sampleFile revisionsFailState
     = revisionsFailState\<lparr>lv_revisions := [], lv_isExtractingRevisions := False\<rparr>"
proof -
  have h: "dh_isReady hookFailing \<and> \<not> dh_isLoading hookFailing \<and>
      dh_initError hookFailing = None \<and>
      dh_convertToHtml hookFailing sampleFile noOptions
        = Inl (ThrownError (NewError ''corrupt file''))"
    by (simp add: hookFailing_def)
  have u: "useWorker defaultProps" "showRevisionsTab defaultProps"
    by (simp_all add: useWorker_def showRevisionsTab_def defaultProps_def nullish_def)
  have c: "lv_isReady defaultProps answeringDocxodus conversionFailsState \<and>
      callConvert defaultProps answeringDocxodus conversionFailsState sampleFile
        = Inl (ThrownError (NewError ''not a DOCX file''))"
    using u by (simp add: lv_isReady_def callConvert_def conversionFailsState_def
        workerCreated_def)
  have m: "callGetDocumentMetadata defaultProps answeringDocxodus metadataFailsState sampleFile
      = Inl (ThrownError (NewError ''metadata unreadable''))"
    using u by (simp add: callGetDocumentMetadata_def metadataFailsState_def workerCreated_def)
  have g: "lv_isReady defaultProps answeringDocxodus revisionsFailState \<and>
      showRevisionsTab defaultProps \<and>
      callGetRevisions defaultProps answeringDocxodus revisionsFailState sampleFile
        = Inl (ThrownError (NewError ''revisions unreadable''))"
    using u by (simp add: lv_isReady_def callGetRevisions_def revisionsFailState_def
        workerCreated_def)
  from engine_errors_caught_at_call
    [of hookFailing sampleFile noOptions "ThrownError (NewError ''corrupt file'')" dv_initial
      defaultProps answeringDocxodus conversionFailsState sampleFile
      "ThrownError (NewError ''not a DOCX file'')"
      defaultProps answeringDocxodus metadataFailsState sampleFile
      "ThrownError (NewError ''metadata unreadable'')"
      defaultProps answeringDocxodus revisionsFailState sampleFile
      "ThrownError (NewError ''revisions unreadable'')"]
    h c m g
  show ?thesis by simp
qed

text \<open>
  The claim as it stands has every engine error rendered as its message, and no retry.
  When \<open>getRevisions\<close> fails in the library viewer, no message is rendered and the
  error state stays null. When the conversion of a selected file fails, the auto-convert
  effect is due in the state that follows, and however often it has run it is due again:
  after \<open>n\<close> runs the viewer has started \<open>n + 1\<close> conversions of the file and reported
  \<open>n + 1\<close> errors.
\<close>

theorem engine_error_policy_counterexample:
  "callGetRevisions defaultProps answeringDocxodus revisionsFailState sampleFile
     = Inl (ThrownError (NewError ''revisions unreadable'')) \<and>
   lv_error (extractRevisions defaultProps answeringDocxodus sampleFile revisionsFailState) = None \<and>
   concat (map shownMessages (DocumentViewer defaultProps answeringDocxodus
       (extractRevisions defaultProps answeringDocxodus sampleFile revisionsFailState))) = [] \<and>
   (\<forall>n. offeredRun defaultProps (failingRun n) readyState \<and>
        autoConvertDue defaultProps failingDocxodus (lv_run defaultProps (failingRun n) readyState) \<and>
        lv_notified (lv_run defaultProps (failingRun n) readyState)
          = OnFileChange (Some sampleFile) #
            concat (replicate (n + 1)
              [OnConversionStart, OnError (NewError ''not a DOCX file'')]))"
proof -
  have u: "useWorker defaultProps" "showRevisionsTab defaultProps"
    by (simp_all add: useWorker_def showRevisionsTab_def defaultProps_def nullish_def)
  have g: "callGetRevisions defaultProps answeringDocxodus revisionsFailState sampleFile
      = Inl (ThrownError (NewError ''revisions unreadable''))"
    using u by (simp add: callGetRevisions_def revisionsFailState_def workerCreated_def)
  have e: "extractRevisions defaultProps answeringDocxodus sampleFile revisionsFailState
      = revisionsFailState\<lparr>lv_revisions := [], lv_isExtractingRevisions := False\<rparr>"
    using u g by (simp add: extractRevisions_def lv_isReady_def Let_def revisionsFailState_def
        workerCreated_def)
  have a: "lv_error (extractRevisions defaultProps answeringDocxodus sampleFile revisionsFailState)
      = None"
    unfolding e by (simp add: revisionsFailState_def workerCreated_def lv_initial_def)
  have b: "concat (map shownMessages (DocumentViewer defaultProps answeringDocxodus
       (extractRevisions defaultProps answeringDocxodus sampleFile revisionsFailState))) = []"
    unfolding e using u
    by (simp add: DocumentViewer_def Content_def lv_initError_def Let_def
        revisionsFailState_def workerCreated_def lv_initial_def)
  let ?s = "lv_step defaultProps failingDocxodus (SelectFile (Some sampleFile)) readyState"
  have w: "lv_worker readyState = Some failingWorker" "lv_workerReady readyState"
    "\<not> lv_workerLoading readyState" "\<not> lv_isConverting readyState"
    "lv_notified readyState = []" "lv_internalHtml readyState = None"
    by (simp_all add: readyState_def workerCreated_def lv_initial_def)
  have pr: "p_file defaultProps = None" "p_html defaultProps = None"
    "toolbar defaultProps = ''top''"
    by (simp_all add: defaultProps_def toolbar_def nullish_def)
  have first: "offered defaultProps failingDocxodus readyState (SelectFile (Some sampleFile))"
    using w u pr by (simp add: lv_isLoading_def)
  have s: "autoConvertDue defaultProps failingDocxodus ?s \<and>
      callConvert defaultProps failingDocxodus ?s (the (lv_file defaultProps ?s))
        = Inl (ThrownError (NewError ''not a DOCX file'')) \<and>
      lv_notified ?s = [OnFileChange (Some sampleFile), OnConversionStart,
        OnError (NewError ''not a DOCX file'')]"
    using w u pr
    by (simp add: handleFileChange_def fetchMetadata_def callGetDocumentMetadata_def
        convert_def callConvert_def autoConvertDue_def lv_isReady_def lv_file_def lv_html_def
        lv_settings_def notify_def Let_def failingWorker_def truthy_def)
  have rep: "[a, b] @ concat (replicate n [a, b]) = concat (replicate (n + 1) [a, b])"
    for a b :: Notification and n
    by simp
  have c: "offeredRun defaultProps (failingRun n) readyState \<and>
        autoConvertDue defaultProps failingDocxodus (lv_run defaultProps (failingRun n) readyState) \<and>
        lv_notified (lv_run defaultProps (failingRun n) readyState)
          = OnFileChange (Some sampleFile) #
            concat (replicate (n + 1)
              [OnConversionStart, OnError (NewError ''not a DOCX file'')])" for n
  proof -
    from s have due: "autoConvertDue defaultProps failingDocxodus ?s"
      and fails: "callConvert defaultProps failingDocxodus ?s (the (lv_file defaultProps ?s))
        = Inl (ThrownError (NewError ''not a DOCX file''))"
      and log: "lv_notified ?s = [OnFileChange (Some sampleFile), OnConversionStart,
        OnError (NewError ''not a DOCX file'')]"
      by simp_all
    note again = autoConvert_retries_forever [OF due fails, of n]
    have run: "lv_run defaultProps (failingRun n) readyState
        = (autoConvert defaultProps failingDocxodus ^^ n) ?s"
      by (simp add: failingRun_def lv_run_effects)
    have off: "offeredRun defaultProps (failingRun n) readyState"
      using first by (simp add: failingRun_def offeredRun_effects)
    from again off show ?thesis
      unfolding run log by simp
  qed
  from g a b c show ?thesis
    by blast
qed

end
